theory Spec2Isabelle
  imports Main "HOL-Library.AList"
begin

section \<open>The JavaScript \<open>Map\<close>\<close>

text \<open>
  The relay keeps its rooms in \<open>const rooms = new Map()\<close>, each room being again a
  \<open>Map\<close> from socket id to participant object. A JavaScript \<open>Map\<close> iterates in
  insertion order, \<open>set\<close> on a present key overwrites the value in place and \<open>set\<close> on
  an absent key appends. That is an association list whose update keeps the position of a
  present key: \<^const>\<open>AList.update\<close>.
\<close>

definition Map_has :: "('k \<times> 'v) list \<Rightarrow> 'k \<Rightarrow> bool" where
  "Map_has m k = (map_of m k \<noteq> None)"

definition Map_get :: "('k \<times> 'v) list \<Rightarrow> 'k \<Rightarrow> 'v option" where
  "Map_get m k = map_of m k"

definition Map_set :: "('k \<times> 'v) list \<Rightarrow> 'k \<Rightarrow> 'v \<Rightarrow> ('k \<times> 'v) list" where
  "Map_set m k v = AList.update k v m"

definition Map_delete :: "('k \<times> 'v) list \<Rightarrow> 'k \<Rightarrow> ('k \<times> 'v) list" where
  "Map_delete m k = AList.delete k m"

definition Map_values :: "('k \<times> 'v) list \<Rightarrow> 'v list" where
  "Map_values m = map snd m"

definition Map_size :: "('k \<times> 'v) list \<Rightarrow> nat" where
  "Map_size m = length m"

section \<open>The signaling relay (\<open>server/index.js\<close>)\<close>

text \<open>
  \<open>server/index.js\<close> holds two revisions of the relay, one after the other. The model
  follows the later one (the handlers registered in the second \<open>io.on('connection', ...)\<close>);
  the join handler of the earlier one is kept as \<open>join_room_early\<close> for comparison.

  A participant object is \<open>{ id, name, audioEnabled, videoEnabled }\<close>; the fields \<open>id\<close>
  and \<open>name\<close> are called \<open>p_id\<close> and \<open>p_name\<close> here.
\<close>

record participant =
  p_id :: string
  p_name :: string
  audioEnabled :: bool
  videoEnabled :: bool

text \<open>
  A chat message is \<open>{ id, senderId, senderName, message, timestamp }\<close>; \<open>id\<close> is
  \<open>m_id\<close> here and the \<open>Date\<close> is kept as its number of milliseconds.
\<close>

record chat_message =
  m_id :: string
  senderId :: string
  senderName :: string
  message :: string
  timestamp :: int

text \<open>
  The properties the handlers store on the socket object: \<open>socket.userName\<close> and
  \<open>socket.roomId\<close>, both \<open>undefined\<close> (\<open>None\<close>) until the first join.
\<close>

record socket_props =
  sock_userName :: "string option"
  sock_roomId :: "string option"

text \<open>
  The state of the relay process: the registry \<open>rooms\<close>, the live sockets with their
  properties, and the room membership that socket.io itself keeps in its adapter
  (\<open>socket.join\<close>, \<open>socket.leave\<close>), as pairs (room, socket id). socket.io puts every
  socket into a room named by its own id when it connects, which is what
  \<open>socket.to(target)\<close> in the offer, answer and candidate handlers relies on, and takes
  it out of every room when it disconnects.
\<close>

record server_state =
  rooms :: "(string \<times> (string \<times> participant) list) list"
  sockets :: "(string \<times> socket_props) list"
  adapter :: "(string \<times> string) list"

definition init :: server_state where
  "init = \<lparr>rooms = [], sockets = [], adapter = []\<rparr>"

text \<open>What the relay sends: the event name with its payload.\<close>

datatype server_msg =
    Existing_participants "participant list"
  | User_joined participant
  | User_left string
  | Offer_from string string
  | Answer_from string string
  | Ice_candidate_from string string
  | Participant_audio_toggle string bool
  | Participant_video_toggle string bool
  | Chat_message_to chat_message

text \<open>
  The two ways a handler sends: \<open>socket.emit(...)\<close> goes to the socket itself
  (\<open>Emit sid msg\<close>), \<open>socket.to(room).emit(...)\<close> goes to every socket in the room
  except the sending one (\<open>To room sid msg\<close>). A handler returns its emissions in
  program order.
\<close>

datatype emission =
    Emit string server_msg
  | To string string server_msg

text \<open>JavaScript truthiness of \<open>socket.roomId\<close>: \<open>undefined\<close> and \<open>""\<close> are falsy.\<close>

fun truthy :: "string option \<Rightarrow> bool" where
  "truthy None = False"
| "truthy (Some s) = (s \<noteq> [])"

text \<open>
  \<open>rooms.get(roomId)\<close> right after the handler has made sure the room exists; the
  room that \<open>rooms.set(roomId, new Map())\<close> has just created is empty.
\<close>

definition room_of :: "(string \<times> (string \<times> participant) list) list \<Rightarrow> string
    \<Rightarrow> (string \<times> participant) list" where
  "room_of rs roomId = (case Map_get rs roomId of None \<Rightarrow> [] | Some room \<Rightarrow> room)"

text \<open>
  \<open>io.on('connection', (socket) => ...)\<close>: a new socket, no properties set yet, in the
  room of its own id.
\<close>

definition connection :: "server_state \<Rightarrow> string \<Rightarrow> server_state" where
  "connection st sid =
     st\<lparr>sockets := Map_set (sockets st) sid \<lparr>sock_userName = None, sock_roomId = None\<rparr>,
        adapter := List.insert (sid, sid) (adapter st)\<rparr>"

text \<open>
  \<open>socket.on('join-room', ({ roomId, userName }) => ...)\<close>. The inner \<open>Map\<close> is
  mutated in place; in the model the changed room is stored back under its key, which
  keeps the room's position in \<open>rooms\<close> and appends a new room at the end.
\<close>

definition join_room :: "server_state \<Rightarrow> string \<Rightarrow> string \<Rightarrow> string
    \<Rightarrow> server_state \<times> emission list" where
  "join_room st sid roomId userName =
     (let adapter1 = List.insert (roomId, sid) (adapter st);
          sockets1 = Map_set (sockets st) sid
                       \<lparr>sock_userName = Some userName, sock_roomId = Some roomId\<rparr>;
          rooms1 = (if \<not> Map_has (rooms st) roomId then Map_set (rooms st) roomId []
                    else rooms st);
          self = \<lparr>p_id = sid, p_name = userName, audioEnabled = True, videoEnabled = True\<rparr>;
          room = Map_set (room_of rooms1 roomId) sid self;
          rooms2 = Map_set rooms1 roomId room;
          existingParticipants = filter (\<lambda>p. p_id p \<noteq> sid) (Map_values room)
      in (st\<lparr>rooms := rooms2, sockets := sockets1, adapter := adapter1\<rparr>,
          (if length existingParticipants > 0
           then [Emit sid (Existing_participants existingParticipants)] else [])
          @ [To roomId sid (User_joined self)]))"

text \<open>
  The join handler of the earlier revision: the same registry update, but
  \<open>user-joined\<close> is broadcast first and \<open>existing-participants\<close> is sent without a
  test of the list's length.
\<close>

definition join_room_early :: "server_state \<Rightarrow> string \<Rightarrow> string \<Rightarrow> string
    \<Rightarrow> server_state \<times> emission list" where
  "join_room_early st sid roomId userName =
     (let adapter1 = List.insert (roomId, sid) (adapter st);
          sockets1 = Map_set (sockets st) sid
                       \<lparr>sock_userName = Some userName, sock_roomId = Some roomId\<rparr>;
          rooms1 = (if \<not> Map_has (rooms st) roomId then Map_set (rooms st) roomId []
                    else rooms st);
          self = \<lparr>p_id = sid, p_name = userName, audioEnabled = True, videoEnabled = True\<rparr>;
          room = Map_set (room_of rooms1 roomId) sid self;
          rooms2 = Map_set rooms1 roomId room;
          participants = filter (\<lambda>p. p_id p \<noteq> sid) (Map_values room)
      in (st\<lparr>rooms := rooms2, sockets := sockets1, adapter := adapter1\<rparr>,
          [To roomId sid (User_joined self), Emit sid (Existing_participants participants)]))"

text \<open>The three signaling handlers forward the payload to the room of the target's id.\<close>

definition offer :: "server_state \<Rightarrow> string \<Rightarrow> string \<Rightarrow> string
    \<Rightarrow> server_state \<times> emission list" where
  "offer st sid target payload = (st, [To target sid (Offer_from sid payload)])"

definition answer :: "server_state \<Rightarrow> string \<Rightarrow> string \<Rightarrow> string
    \<Rightarrow> server_state \<times> emission list" where
  "answer st sid target payload = (st, [To target sid (Answer_from sid payload)])"

definition ice_candidate :: "server_state \<Rightarrow> string \<Rightarrow> string \<Rightarrow> string
    \<Rightarrow> server_state \<times> emission list" where
  "ice_candidate st sid target candidate =
     (st, [To target sid (Ice_candidate_from sid candidate)])"

text \<open>
  The payload of \<open>toggle-audio\<close> and \<open>toggle-video\<close>. The handlers destructure
  \<open>roomId\<close> and the flag; whatever else the client put into the object, such as the id of
  a participant, is never read. \<open>named\<close> stands for such a property.
\<close>

record toggle_payload =
  t_roomId :: string
  t_enabled :: bool
  named :: "string option"

definition toggle_audio :: "server_state \<Rightarrow> string \<Rightarrow> toggle_payload
    \<Rightarrow> server_state \<times> emission list" where
  "toggle_audio st sid pl =
     (if Map_has (rooms st) (t_roomId pl) then
        (let room = room_of (rooms st) (t_roomId pl) in
         case Map_get room sid of
           None \<Rightarrow> (st, [])
         | Some participant \<Rightarrow>
             (st\<lparr>rooms := Map_set (rooms st) (t_roomId pl)
                    (Map_set room sid (participant\<lparr>audioEnabled := t_enabled pl\<rparr>))\<rparr>,
              [To (t_roomId pl) sid (Participant_audio_toggle sid (t_enabled pl))]))
      else (st, []))"

definition toggle_video :: "server_state \<Rightarrow> string \<Rightarrow> toggle_payload
    \<Rightarrow> server_state \<times> emission list" where
  "toggle_video st sid pl =
     (if Map_has (rooms st) (t_roomId pl) then
        (let room = room_of (rooms st) (t_roomId pl) in
         case Map_get room sid of
           None \<Rightarrow> (st, [])
         | Some participant \<Rightarrow>
             (st\<lparr>rooms := Map_set (rooms st) (t_roomId pl)
                    (Map_set room sid (participant\<lparr>videoEnabled := t_enabled pl\<rparr>))\<rparr>,
              [To (t_roomId pl) sid (Participant_video_toggle sid (t_enabled pl))]))
      else (st, []))"

text \<open>
  \<open>socket.on('chat-message', ({ roomId, message }) => ...)\<close>. The payload is taken to
  carry a message object, as every payload is taken to have the shape its handler
  destructures; without one the handler's log line would throw before anything is sent.
\<close>

definition chat_message :: "server_state \<Rightarrow> string \<Rightarrow> string \<Rightarrow> chat_message
    \<Rightarrow> server_state \<times> emission list" where
  "chat_message st sid roomId msg = (st, [To roomId sid (Chat_message_to msg)])"

text \<open>
  \<open>socket.on('disconnect', ...)\<close>. By the time the handler runs socket.io has taken the
  socket out of all its rooms; the socket object is dropped afterwards. The handler looks
  only at the room named by \<open>socket.roomId\<close>.
\<close>

definition disconnect :: "server_state \<Rightarrow> string \<Rightarrow> server_state \<times> emission list" where
  "disconnect st sid =
     (let st1 = st\<lparr>adapter := filter (\<lambda>(r, s). s \<noteq> sid) (adapter st),
                   sockets := Map_delete (sockets st) sid\<rparr>
      in case Map_get (sockets st) sid of
           None \<Rightarrow> (st1, [])
         | Some sock \<Rightarrow>
             (case sock_roomId sock of
                None \<Rightarrow> (st1, [])
              | Some roomId \<Rightarrow>
                  if truthy (sock_roomId sock) \<and> Map_has (rooms st) roomId then
                    (let room = Map_delete (room_of (rooms st) roomId) sid
                     in (st1\<lparr>rooms := (if Map_size room = 0 then Map_delete (rooms st) roomId
                                        else Map_set (rooms st) roomId room)\<rparr>,
                         [To roomId sid (User_left sid)]))
                  else (st1, [])))"

text \<open>
  \<open>socket.on('leave-room', ...)\<close>: the same cleanup, with \<open>socket.leave(socket.roomId)\<close>;
  the socket stays connected and \<open>socket.roomId\<close> keeps its value.
\<close>

definition leave_room :: "server_state \<Rightarrow> string \<Rightarrow> server_state \<times> emission list" where
  "leave_room st sid =
     (case Map_get (sockets st) sid of
        None \<Rightarrow> (st, [])
      | Some sock \<Rightarrow>
          (case sock_roomId sock of
             None \<Rightarrow> (st, [])
           | Some roomId \<Rightarrow>
               if truthy (sock_roomId sock) \<and> Map_has (rooms st) roomId then
                 (let room = Map_delete (room_of (rooms st) roomId) sid
                  in (st\<lparr>rooms := (if Map_size room = 0 then Map_delete (rooms st) roomId
                                    else Map_set (rooms st) roomId room),
                         adapter := removeAll (roomId, sid) (adapter st)\<rparr>,
                      [To roomId sid (User_left sid)]))
               else (st, [])))"

subsection \<open>Delivery\<close>

text \<open>The sockets that socket.io has in a room, and those an emission reaches.\<close>

definition members :: "(string \<times> string) list \<Rightarrow> string \<Rightarrow> string list" where
  "members ad room = map snd (filter (\<lambda>(r, s). r = room) ad)"

fun recipients :: "(string \<times> string) list \<Rightarrow> emission \<Rightarrow> string list" where
  "recipients ad (Emit sid msg) = [sid]"
| "recipients ad (To room sid msg) = filter (\<lambda>s. s \<noteq> sid) (members ad room)"

fun msg_of :: "emission \<Rightarrow> server_msg" where
  "msg_of (Emit sid msg) = msg"
| "msg_of (To room sid msg) = msg"

text \<open>
  The messages in the order in which the relay sends them, each with its receiver. The
  membership is the one at the end of the handler: every handler has joined before it
  sends, and leaving removes only the sender, whom \<open>socket.to\<close> leaves out anyway.
\<close>

definition deliveries :: "(string \<times> string) list \<Rightarrow> emission list
    \<Rightarrow> (string \<times> server_msg) list" where
  "deliveries ad ems = concat (map (\<lambda>e. map (\<lambda>r. (r, msg_of e)) (recipients ad e)) ems)"

text \<open>What a join makes arrive, and what of a list of deliveries a given socket receives.\<close>

definition join_deliveries :: "server_state \<Rightarrow> string \<Rightarrow> string \<Rightarrow> string
    \<Rightarrow> (string \<times> server_msg) list" where
  "join_deliveries st sid room userName =
     (let (st1, ems) = join_room st sid room userName in deliveries (adapter st1) ems)"

definition received_by :: "string \<Rightarrow> (string \<times> server_msg) list \<Rightarrow> server_msg list" where
  "received_by sid ds = map snd (filter (\<lambda>(r, msg). r = sid) ds)"

subsection \<open>Event sequences\<close>

text \<open>What a client can make the relay do; the first string is the id of the socket.\<close>

datatype event =
    Connection string
  | Join_room string string string
  | Offer string string string
  | Answer string string string
  | Ice_candidate string string string
  | Toggle_audio string toggle_payload
  | Toggle_video string toggle_payload
  | Chat_message string string chat_message
  | Disconnect string
  | Leave_room string

fun socket_of :: "event \<Rightarrow> string" where
  "socket_of (Connection sid) = sid"
| "socket_of (Join_room sid roomId userName) = sid"
| "socket_of (Offer sid target payload) = sid"
| "socket_of (Answer sid target payload) = sid"
| "socket_of (Ice_candidate sid target candidate) = sid"
| "socket_of (Toggle_audio sid pl) = sid"
| "socket_of (Toggle_video sid pl) = sid"
| "socket_of (Chat_message sid roomId msg) = sid"
| "socket_of (Disconnect sid) = sid"
| "socket_of (Leave_room sid) = sid"

fun handle :: "server_state \<Rightarrow> event \<Rightarrow> server_state \<times> emission list" where
  "handle st (Connection sid) = (connection st sid, [])"
| "handle st (Join_room sid roomId userName) = join_room st sid roomId userName"
| "handle st (Offer sid target payload) = offer st sid target payload"
| "handle st (Answer sid target payload) = answer st sid target payload"
| "handle st (Ice_candidate sid target candidate) = ice_candidate st sid target candidate"
| "handle st (Toggle_audio sid pl) = toggle_audio st sid pl"
| "handle st (Toggle_video sid pl) = toggle_video st sid pl"
| "handle st (Chat_message sid roomId msg) = chat_message st sid roomId msg"
| "handle st (Disconnect sid) = disconnect st sid"
| "handle st (Leave_room sid) = leave_room st sid"

text \<open>
  Socket ids are unique per connection, and handlers exist only on a connected socket: a
  connection event for a live id and any other event for a dead one do not occur, and the
  step ignores them.
\<close>

definition is_connection :: "event \<Rightarrow> bool" where
  "is_connection ev = (case ev of Connection sid \<Rightarrow> True | _ \<Rightarrow> False)"

definition step :: "server_state \<Rightarrow> event \<Rightarrow> server_state \<times> emission list" where
  "step st ev =
     (if is_connection ev
      then (if Map_has (sockets st) (socket_of ev) then (st, []) else handle st ev)
      else (if Map_has (sockets st) (socket_of ev) then handle st ev else (st, [])))"

fun run :: "server_state \<Rightarrow> event list \<Rightarrow> server_state" where
  "run st [] = st"
| "run st (ev # evs) = run (fst (step st ev)) evs"

subsection \<open>Well-formed registries\<close>

text \<open>
  What the handlers keep true of the registry: a room is not empty, lists a socket once
  and under its own id, and no two rooms share a name.
\<close>

definition wf_room :: "(string \<times> participant) list \<Rightarrow> bool" where
  "wf_room m = (m \<noteq> [] \<and> distinct (map fst m) \<and> list_all (\<lambda>(k, p). p_id p = k) m)"

definition wf_rooms :: "(string \<times> (string \<times> participant) list) list \<Rightarrow> bool" where
  "wf_rooms rs = (distinct (map fst rs) \<and> list_all (\<lambda>(r, m). wf_room m) rs)"

text \<open>
  Every socket that socket.io has in a room, other than the room of its own id, is listed
  in that room of the registry.
\<close>

definition registered :: "server_state \<Rightarrow> bool" where
  "registered st =
     list_all (\<lambda>(r, s). r = s \<or> Map_has (room_of (rooms st) r) s) (adapter st)"

section \<open>The client (\<open>src/contexts/VideoContext.tsx\<close>)\<close>

text \<open>
  The model follows the later of the two revisions in the file. \<open>async\<close> handlers are
  taken as running to completion, one after the other. What the browser does
  (\<open>RTCPeerConnection\<close>, the clock) is a parameter.
\<close>

subsection \<open>The reducer\<close>

datatype track_kind = Audio | Video

record track =
  kind :: track_kind
  enabled :: bool
  stopped :: bool

text \<open>A \<open>MediaStream\<close> is the list of its tracks.\<close>

type_synonym media_stream = "track list"

definition getVideoTracks :: "media_stream \<Rightarrow> track list" where
  "getVideoTracks s = filter (\<lambda>t. kind t = Video) s"

text \<open>The client's \<open>Participant\<close> has the optional \<open>stream\<close> besides the relay's fields.\<close>

record client_participant = participant +
  stream :: "media_stream option"

definition from_wire :: "participant \<Rightarrow> client_participant" where
  "from_wire p = \<lparr>p_id = p_id p, p_name = p_name p, audioEnabled = audioEnabled p,
                  videoEnabled = videoEnabled p, stream = None\<rparr>"

text \<open>\<open>Partial<Participant>\<close>: a property that is absent is \<open>None\<close>.\<close>

record participant_updates =
  u_id :: "string option"
  u_name :: "string option"
  u_stream :: "media_stream option"
  u_audioEnabled :: "bool option"
  u_videoEnabled :: "bool option"

definition no_updates :: participant_updates where
  "no_updates = \<lparr>u_id = None, u_name = None, u_stream = None,
                  u_audioEnabled = None, u_videoEnabled = None\<rparr>"

text \<open>The object spread \<open>{ ...p, ...updates }\<close>.\<close>

definition spread :: "client_participant \<Rightarrow> participant_updates \<Rightarrow> client_participant" where
  "spread p u =
     \<lparr>p_id = (case u_id u of None \<Rightarrow> p_id p | Some v \<Rightarrow> v),
      p_name = (case u_name u of None \<Rightarrow> p_name p | Some v \<Rightarrow> v),
      audioEnabled = (case u_audioEnabled u of None \<Rightarrow> audioEnabled p | Some v \<Rightarrow> v),
      videoEnabled = (case u_videoEnabled u of None \<Rightarrow> videoEnabled p | Some v \<Rightarrow> v),
      stream = (case u_stream u of None \<Rightarrow> stream p | Some v \<Rightarrow> Some v)\<rparr>"

text \<open>The client's socket object, known by the URL it was made for.\<close>

datatype socket_obj = Socket string

record video_state =
  localStream :: "media_stream option"
  participants :: "client_participant list"
  isAudioEnabled :: bool
  isVideoEnabled :: bool
  isScreenSharing :: bool
  roomId :: "string option"
  chatMessages :: "chat_message list"
  socket :: "socket_obj option"
  isConnected :: bool

datatype video_action =
    SET_LOCAL_STREAM "media_stream option"
  | TOGGLE_AUDIO
  | TOGGLE_VIDEO
  | TOGGLE_SCREEN_SHARE
  | SET_ROOM_ID string
  | ADD_PARTICIPANT client_participant
  | REMOVE_PARTICIPANT string
  | UPDATE_PARTICIPANT string participant_updates
  | ADD_CHAT_MESSAGE chat_message
  | DELETE_CHAT_MESSAGE string
  | SET_SOCKET "socket_obj option"
  | SET_CONNECTED bool
  | CLEAR_ROOM

definition initialState :: video_state where
  "initialState =
     \<lparr>localStream = None, participants = [], isAudioEnabled = True, isVideoEnabled = True,
      isScreenSharing = False, roomId = None, chatMessages = [], socket = None,
      isConnected = False\<rparr>"

text \<open>
  \<open>TOGGLE_AUDIO\<close> and \<open>TOGGLE_VIDEO\<close> write \<open>track.enabled\<close> on the tracks of the stream
  object that \<open>state.localStream\<close> points to, so the new state sees the changed tracks.
\<close>

definition set_enabled :: "track_kind \<Rightarrow> bool \<Rightarrow> media_stream \<Rightarrow> media_stream" where
  "set_enabled k b s = map (\<lambda>t. if kind t = k then t\<lparr>enabled := b\<rparr> else t) s"

fun videoReducer :: "video_state \<Rightarrow> video_action \<Rightarrow> video_state" where
  "videoReducer s (SET_LOCAL_STREAM payload) = s\<lparr>localStream := payload\<rparr>"
| "videoReducer s TOGGLE_AUDIO =
     (let newAudioState = \<not> isAudioEnabled s
      in s\<lparr>localStream := map_option (set_enabled Audio newAudioState) (localStream s),
           isAudioEnabled := newAudioState\<rparr>)"
| "videoReducer s TOGGLE_VIDEO =
     (let newVideoState = \<not> isVideoEnabled s
      in s\<lparr>localStream := map_option (set_enabled Video newVideoState) (localStream s),
           isVideoEnabled := newVideoState\<rparr>)"
| "videoReducer s TOGGLE_SCREEN_SHARE = s\<lparr>isScreenSharing := \<not> isScreenSharing s\<rparr>"
| "videoReducer s (SET_ROOM_ID payload) = s\<lparr>roomId := Some payload\<rparr>"
| "videoReducer s (ADD_PARTICIPANT payload) = s\<lparr>participants := participants s @ [payload]\<rparr>"
| "videoReducer s (REMOVE_PARTICIPANT payload) =
     s\<lparr>participants := filter (\<lambda>p. p_id p \<noteq> payload) (participants s)\<rparr>"
| "videoReducer s (UPDATE_PARTICIPANT ident updates) =
     s\<lparr>participants := map (\<lambda>p. if p_id p = ident then spread p updates else p)
                           (participants s)\<rparr>"
| "videoReducer s (ADD_CHAT_MESSAGE payload) = s\<lparr>chatMessages := chatMessages s @ [payload]\<rparr>"
| "videoReducer s (DELETE_CHAT_MESSAGE payload) =
     s\<lparr>chatMessages := filter (\<lambda>msg. m_id msg \<noteq> payload) (chatMessages s)\<rparr>"
| "videoReducer s (SET_SOCKET payload) = s\<lparr>socket := payload\<rparr>"
| "videoReducer s (SET_CONNECTED payload) = s\<lparr>isConnected := payload\<rparr>"
| "videoReducer s CLEAR_ROOM = initialState\<lparr>socket := socket s\<rparr>"

subsection \<open>Peer connections\<close>

datatype signaling_state = Stable | Have_local_offer | Have_remote_offer | Signaling_closed

datatype connection_state = New | Connecting | Connected | Disconnected | Failed
  | Connection_closed

record peer_connection =
  signalingState :: signaling_state
  connectionState :: connection_state
  localDescription :: "string option"
  remoteDescription :: "string option"
  senders :: "track list"
  candidates :: "string list"

definition new_RTCPeerConnection :: peer_connection where
  "new_RTCPeerConnection =
     \<lparr>signalingState = Stable, connectionState = New, localDescription = None,
      remoteDescription = None, senders = [], candidates = []\<rparr>"

text \<open>
  The browser: what \<open>createOffer\<close> and \<open>createAnswer\<close> resolve to (\<open>None\<close> when the
  promise is rejected) and whether the other calls succeed. Every failure lands in the
  \<open>catch\<close> of the function that made the call.
\<close>

record webrtc =
  createOffer :: "peer_connection \<Rightarrow> string option"
  createAnswer :: "peer_connection \<Rightarrow> string option"
  setLocalDescription_ok :: "peer_connection \<Rightarrow> string \<Rightarrow> bool"
  setRemoteDescription_ok :: "peer_connection \<Rightarrow> string \<Rightarrow> bool"
  addIceCandidate_ok :: "peer_connection \<Rightarrow> string \<Rightarrow> bool"

text \<open>
  The provider's state: the reducer state and the three refs. What the client sends to
  the relay is a \<open>client_msg\<close>.
\<close>

record client_state =
  state :: video_state
  peerConnections :: "(string \<times> peer_connection) list"
  localStreamRef :: "media_stream option"
  socketRef :: "socket_obj option"

datatype client_msg =
    Emit_join_room string string
  | Emit_offer string string
  | Emit_answer string string
  | Emit_ice_candidate string string
  | Emit_toggle_audio string bool
  | Emit_toggle_video string bool
  | Emit_chat_message string chat_message
  | Emit_leave_room

text \<open>
  \<open>dispatch\<close> runs the reducer. \<open>localStreamRef.current\<close> points to the stream object
  that \<open>state.localStream\<close> points to (\<open>initializeMedia\<close> and \<open>shareScreen\<close> store the
  same object in both), so what \<open>TOGGLE_AUDIO\<close> and \<open>TOGGLE_VIDEO\<close> write to
  \<open>track.enabled\<close> shows through the ref as well. The model holds the stream twice and
  writes the second copy too, whenever the ref holds the stream of the state.
\<close>

definition writes_tracks :: "video_action \<Rightarrow> bool" where
  "writes_tracks a = (a = TOGGLE_AUDIO \<or> a = TOGGLE_VIDEO)"

definition dispatch :: "client_state \<Rightarrow> video_action \<Rightarrow> client_state" where
  "dispatch cs a =
     cs\<lparr>state := videoReducer (state cs) a,
        localStreamRef :=
          (if writes_tracks a \<and> localStreamRef cs = localStream (state cs)
           then localStream (videoReducer (state cs) a) else localStreamRef cs)\<rparr>"

text \<open>
  \<open>createAndSendOffer\<close> works on the connection object it is given and returns it as the
  calls have left it.
\<close>

definition createAndSendOffer :: "webrtc \<Rightarrow> socket_obj option \<Rightarrow> string \<Rightarrow> peer_connection
    \<Rightarrow> peer_connection \<times> client_msg list" where
  "createAndSendOffer rtc sock participantId pc =
     (case createOffer rtc pc of
        None \<Rightarrow> (pc, [])
      | Some sdp \<Rightarrow>
          if \<not> setLocalDescription_ok rtc pc sdp then (pc, [])
          else (pc\<lparr>localDescription := Some sdp, signalingState := Have_local_offer\<rparr>,
                if sock \<noteq> None then [Emit_offer participantId sdp] else []))"

definition createPeerConnection :: "webrtc \<Rightarrow> client_state \<Rightarrow> string \<Rightarrow> bool
    \<Rightarrow> client_state \<times> client_msg list" where
  "createPeerConnection rtc cs participantId shouldCreateOffer =
     (let pc = new_RTCPeerConnection;
          pc1 = (case localStreamRef cs of None \<Rightarrow> pc
                 | Some s \<Rightarrow> pc\<lparr>senders := senders pc @ s\<rparr>);
          (pc2, out) = (if shouldCreateOffer
                        then createAndSendOffer rtc (socketRef cs) participantId pc1
                        else (pc1, []))
      in (cs\<lparr>peerConnections := Map_set (peerConnections cs) participantId pc2\<rparr>, out))"

text \<open>The handlers of \<open>existing-participants\<close>, \<open>user-joined\<close> and \<open>user-left\<close>.\<close>

fun on_existing_participants :: "webrtc \<Rightarrow> client_state \<Rightarrow> participant list
    \<Rightarrow> client_state \<times> client_msg list" where
  "on_existing_participants rtc cs [] = (cs, [])"
| "on_existing_participants rtc cs (p # ps) =
     (let (cs1, out1) = createPeerConnection rtc
                          (dispatch cs (ADD_PARTICIPANT (from_wire p))) (p_id p) True;
          (cs2, out2) = on_existing_participants rtc cs1 ps
      in (cs2, out1 @ out2))"

definition on_user_joined :: "webrtc \<Rightarrow> client_state \<Rightarrow> participant
    \<Rightarrow> client_state \<times> client_msg list" where
  "on_user_joined rtc cs p =
     createPeerConnection rtc (dispatch cs (ADD_PARTICIPANT (from_wire p))) (p_id p) False"

definition on_user_left :: "client_state \<Rightarrow> string \<Rightarrow> client_state" where
  "on_user_left cs userId =
     (let cs1 = dispatch cs (REMOVE_PARTICIPANT userId)
      in case Map_get (peerConnections cs1) userId of
           None \<Rightarrow> cs1
         | Some pc \<Rightarrow> cs1\<lparr>peerConnections := Map_delete (peerConnections cs1) userId\<rparr>)"

text \<open>
  \<open>handleOffer\<close>, \<open>handleAnswer\<close> and \<open>handleIceCandidate\<close>. A call that throws leaves
  the connection as the calls before it have made it.
\<close>

definition handleOffer :: "webrtc \<Rightarrow> client_state \<Rightarrow> string \<Rightarrow> string
    \<Rightarrow> client_state \<times> client_msg list" where
  "handleOffer rtc cs sender sdp =
     (case Map_get (peerConnections cs) sender of
        None \<Rightarrow> (cs, [])
      | Some pc \<Rightarrow>
          if signalingState pc = Signaling_closed then (cs, [])
          else if \<not> setRemoteDescription_ok rtc pc sdp then (cs, [])
          else
            (let pc1 = pc\<lparr>remoteDescription := Some sdp, signalingState := Have_remote_offer\<rparr>;
                 cs1 = cs\<lparr>peerConnections := Map_set (peerConnections cs) sender pc1\<rparr>
             in case createAnswer rtc pc1 of
                  None \<Rightarrow> (cs1, [])
                | Some ans \<Rightarrow>
                    if \<not> setLocalDescription_ok rtc pc1 ans then (cs1, [])
                    else
                      (cs\<lparr>peerConnections := Map_set (peerConnections cs) sender
                            (pc1\<lparr>localDescription := Some ans, signalingState := Stable\<rparr>)\<rparr>,
                       if socketRef cs \<noteq> None then [Emit_answer sender ans] else [])))"

definition handleAnswer :: "webrtc \<Rightarrow> client_state \<Rightarrow> string \<Rightarrow> string \<Rightarrow> client_state" where
  "handleAnswer rtc cs sender sdp =
     (case Map_get (peerConnections cs) sender of
        None \<Rightarrow> cs
      | Some pc \<Rightarrow>
          if signalingState pc = Signaling_closed then cs
          else if \<not> setRemoteDescription_ok rtc pc sdp then cs
          else cs\<lparr>peerConnections := Map_set (peerConnections cs) sender
                    (pc\<lparr>remoteDescription := Some sdp, signalingState := Stable\<rparr>)\<rparr>)"

definition handleIceCandidate :: "webrtc \<Rightarrow> client_state \<Rightarrow> string \<Rightarrow> string
    \<Rightarrow> client_state" where
  "handleIceCandidate rtc cs sender candidate =
     (case Map_get (peerConnections cs) sender of
        None \<Rightarrow> cs
      | Some pc \<Rightarrow>
          if connectionState pc = Connection_closed then cs
          else if \<not> addIceCandidate_ok rtc pc candidate then cs
          else cs\<lparr>peerConnections := Map_set (peerConnections cs) sender
                    (pc\<lparr>candidates := candidates pc @ [candidate]\<rparr>)\<rparr>)"

text \<open>
  \<open>updatePeerConnectionStreams\<close>: every connection in the map drops its senders, takes
  the tracks of the current stream and gets a fresh offer. \<open>removeTrack\<close> and
  \<open>addTrack\<close> throw on a closed connection, which the \<open>catch\<close> inside the loop swallows.
\<close>

fun update_each :: "webrtc \<Rightarrow> socket_obj option \<Rightarrow> media_stream
    \<Rightarrow> (string \<times> peer_connection) list
    \<Rightarrow> (string \<times> peer_connection) list \<times> client_msg list" where
  "update_each rtc sock s [] = ([], [])"
| "update_each rtc sock s ((participantId, pc) # rest) =
     (let (pc1, out1) =
            (if signalingState pc = Signaling_closed then (pc, [])
             else createAndSendOffer rtc sock participantId (pc\<lparr>senders := s\<rparr>));
          (rest1, out2) = update_each rtc sock s rest
      in ((participantId, pc1) # rest1, out1 @ out2))"

definition updatePeerConnectionStreams :: "webrtc \<Rightarrow> client_state
    \<Rightarrow> client_state \<times> client_msg list" where
  "updatePeerConnectionStreams rtc cs =
     (case localStreamRef cs of
        None \<Rightarrow> (cs, [])
      | Some s \<Rightarrow>
          (let (pcs, out) = update_each rtc (socketRef cs) s (peerConnections cs)
           in (cs\<lparr>peerConnections := pcs\<rparr>, out)))"

text \<open>The effect that runs when \<open>state.localStream\<close> has changed.\<close>

definition localStream_effect :: "webrtc \<Rightarrow> client_state \<Rightarrow> client_state \<times> client_msg list" where
  "localStream_effect rtc cs =
     (if localStreamRef cs \<noteq> None \<and> Map_size (peerConnections cs) > 0
      then updatePeerConnectionStreams rtc cs else (cs, []))"

subsection \<open>Entry points\<close>

text \<open>
  What \<open>navigator.mediaDevices\<close> gives: the stream for the preferred constraints, the
  one for \<open>{ video: true, audio: true }\<close> and the screen capture, each \<open>None\<close> when
  the request is rejected.
\<close>

record media_devices =
  getUserMedia_preferred :: "media_stream option"
  getUserMedia_basic :: "media_stream option"
  getDisplayMedia :: "media_stream option"

definition initializeMedia :: "media_devices \<Rightarrow> client_state \<Rightarrow> client_state" where
  "initializeMedia md cs =
     (case getUserMedia_preferred md of
        Some s \<Rightarrow> dispatch (cs\<lparr>localStreamRef := Some s\<rparr>) (SET_LOCAL_STREAM (Some s))
      | None \<Rightarrow>
          (case getUserMedia_basic md of
             Some fallbackStream \<Rightarrow>
               dispatch (cs\<lparr>localStreamRef := Some fallbackStream\<rparr>)
                 (SET_LOCAL_STREAM (Some fallbackStream))
           | None \<Rightarrow> cs))"

text \<open>
  \<open>shareScreen\<close>. Setting \<open>onended\<close> on the first video track throws when the
  capture has no video track; the \<open>catch\<close> then skips the update of the peer
  connections. The \<open>onended\<close> callback itself is not modelled.
\<close>

definition shareScreen :: "media_devices \<Rightarrow> webrtc \<Rightarrow> client_state
    \<Rightarrow> client_state \<times> client_msg list" where
  "shareScreen md rtc cs =
     (if isScreenSharing (state cs) then
        updatePeerConnectionStreams rtc (dispatch (initializeMedia md cs) TOGGLE_SCREEN_SHARE)
      else
        (case getDisplayMedia md of
           None \<Rightarrow> (cs, [])
         | Some screenStream \<Rightarrow>
             (let cs1 = dispatch (dispatch (cs\<lparr>localStreamRef := Some screenStream\<rparr>)
                                    (SET_LOCAL_STREAM (Some screenStream)))
                          TOGGLE_SCREEN_SHARE
              in if getVideoTracks screenStream = [] then (cs1, [])
                 else updatePeerConnectionStreams rtc cs1)))"

text \<open>\<open>Number.prototype.toString\<close> of a non-negative integer, for \<open>Date.now().toString()\<close>.\<close>

fun toString :: "nat \<Rightarrow> string" where
  "toString n =
     (if n < 10 then [''0123456789'' ! n]
      else toString (n div 10) @ [''0123456789'' ! (n mod 10)])"

declare toString.simps [simp del]

definition joinRoom :: "client_state \<Rightarrow> string \<Rightarrow> string \<Rightarrow> client_state \<times> client_msg list" where
  "joinRoom cs room userName =
     (if socketRef cs \<noteq> None
      then (dispatch cs (SET_ROOM_ID room), [Emit_join_room room userName])
      else (cs, []))"

text \<open>
  \<open>leaveRoom\<close>: tell the relay, close and forget every peer connection, stop the local
  tracks, and dispatch \<open>CLEAR_ROOM\<close>.
\<close>

definition leaveRoom :: "client_state \<Rightarrow> client_state \<times> client_msg list" where
  "leaveRoom cs =
     (dispatch (cs\<lparr>peerConnections := [], localStreamRef := None\<rparr>) CLEAR_ROOM,
      if socketRef cs \<noteq> None \<and> truthy (roomId (state cs)) then [Emit_leave_room] else [])"

text \<open>\<open>sendChatMessage\<close>, with \<open>now\<close> the value of \<open>Date.now()\<close>.\<close>

definition sendChatMessage :: "nat \<Rightarrow> client_state \<Rightarrow> string
    \<Rightarrow> client_state \<times> client_msg list" where
  "sendChatMessage now cs text =
     (case roomId (state cs) of
        None \<Rightarrow> (cs, [])
      | Some room \<Rightarrow>
          if socketRef cs \<noteq> None \<and> truthy (roomId (state cs)) then
            (let chatMessage = \<lparr>m_id = toString now, senderId = ''current-user'',
                                senderName = ''You'', message = text, timestamp = int now\<rparr>
             in (dispatch cs (ADD_CHAT_MESSAGE chatMessage),
                 [Emit_chat_message room chatMessage]))
          else (cs, []))"

text \<open>
  The two effects that tell the relay when \<open>state.isAudioEnabled\<close> or
  \<open>state.isVideoEnabled\<close> has changed. The message gives the room and the flag and
  names no participant.
\<close>

definition isAudioEnabled_effect :: "client_state \<Rightarrow> client_msg list" where
  "isAudioEnabled_effect cs =
     (case roomId (state cs) of
        None \<Rightarrow> []
      | Some room \<Rightarrow>
          if socketRef cs \<noteq> None \<and> truthy (roomId (state cs))
          then [Emit_toggle_audio room (isAudioEnabled (state cs))] else [])"

definition isVideoEnabled_effect :: "client_state \<Rightarrow> client_msg list" where
  "isVideoEnabled_effect cs =
     (case roomId (state cs) of
        None \<Rightarrow> []
      | Some room \<Rightarrow>
          if socketRef cs \<noteq> None \<and> truthy (roomId (state cs))
          then [Emit_toggle_video room (isVideoEnabled (state cs))] else [])"

definition deleteChatMessage :: "client_state \<Rightarrow> string \<Rightarrow> client_state" where
  "deleteChatMessage cs ident = dispatch cs (DELETE_CHAT_MESSAGE ident)"

subsection \<open>Client and relay together\<close>

text \<open>The socket handlers of the client, by the message that arrives.\<close>

fun client_receive :: "webrtc \<Rightarrow> client_state \<Rightarrow> server_msg
    \<Rightarrow> client_state \<times> client_msg list" where
  "client_receive rtc cs (Existing_participants ps) = on_existing_participants rtc cs ps"
| "client_receive rtc cs (User_joined p) = on_user_joined rtc cs p"
| "client_receive rtc cs (User_left userId) = (on_user_left cs userId, [])"
| "client_receive rtc cs (Offer_from sender sdp) = handleOffer rtc cs sender sdp"
| "client_receive rtc cs (Answer_from sender sdp) = (handleAnswer rtc cs sender sdp, [])"
| "client_receive rtc cs (Ice_candidate_from sender candidate) =
     (handleIceCandidate rtc cs sender candidate, [])"
| "client_receive rtc cs (Participant_audio_toggle participantId b) =
     (dispatch cs (UPDATE_PARTICIPANT participantId (no_updates\<lparr>u_audioEnabled := Some b\<rparr>)), [])"
| "client_receive rtc cs (Participant_video_toggle participantId b) =
     (dispatch cs (UPDATE_PARTICIPANT participantId (no_updates\<lparr>u_videoEnabled := Some b\<rparr>)), [])"
| "client_receive rtc cs (Chat_message_to msg) = (dispatch cs (ADD_CHAT_MESSAGE msg), [])"

text \<open>What a client's emission is for the relay, once it arrives on socket \<open>sid\<close>.\<close>

fun to_event :: "string \<Rightarrow> client_msg \<Rightarrow> event" where
  "to_event sid (Emit_join_room room userName) = Join_room sid room userName"
| "to_event sid (Emit_offer target sdp) = Offer sid target sdp"
| "to_event sid (Emit_answer target sdp) = Answer sid target sdp"
| "to_event sid (Emit_ice_candidate target candidate) = Ice_candidate sid target candidate"
| "to_event sid (Emit_toggle_audio room b) =
     Toggle_audio sid \<lparr>t_roomId = room, t_enabled = b, named = None\<rparr>"
| "to_event sid (Emit_toggle_video room b) =
     Toggle_video sid \<lparr>t_roomId = room, t_enabled = b, named = None\<rparr>"
| "to_event sid (Emit_chat_message room msg) = Chat_message sid room msg"
| "to_event sid Emit_leave_room = Leave_room sid"

text \<open>The targets of the offers among a client's emissions.\<close>

fun offer_targets :: "client_msg list \<Rightarrow> string list" where
  "offer_targets [] = []"
| "offer_targets (Emit_offer target sdp # out) = target # offer_targets out"
| "offer_targets (m # out) = offer_targets out"

text \<open>
  The offers that a join sets off: the relay handles the join, every message it sends
  is handled by the client on the receiving socket, and each offer a client then sends is
  listed as (originator, target). \<open>clients\<close> gives the client behind each socket.
\<close>

definition discovery_offers :: "webrtc \<Rightarrow> (string \<Rightarrow> client_state) \<Rightarrow> server_state
    \<Rightarrow> string \<Rightarrow> string \<Rightarrow> string \<Rightarrow> (string \<times> string) list" where
  "discovery_offers rtc clients st sid room userName =
     concat (map (\<lambda>(r, msg). map (\<lambda>t. (r, t))
                    (offer_targets (snd (client_receive rtc (clients r) msg))))
               (join_deliveries st sid room userName))"

text \<open>
  How a client has come to know a peer. The handler of \<open>existing-participants\<close> makes,
  for each participant on the list, a new peer connection under that participant's id
  with \<open>shouldCreateOffer = true\<close>; the handler of \<open>user-joined\<close> makes one with
  \<open>shouldCreateOffer = false\<close>; the handler of \<open>user-left\<close> removes the one it finds. A
  new connection takes the place of the one the map had under the id, so what a client
  holds for a peer is what the last of these messages about the peer has left. \<open>learn\<close>
  keeps that much of a client: for each peer with a peer connection, whether the
  connection was made on \<open>existing-participants\<close> or on \<open>user-joined\<close>.
\<close>

datatype how = Via_existing | Via_joined

fun learn_existing :: "participant list \<Rightarrow> (string \<Rightarrow> how option) \<Rightarrow> string \<Rightarrow> how option" where
  "learn_existing [] k = k"
| "learn_existing (p # ps) k = learn_existing ps (k(p_id p := Some Via_existing))"

fun learn :: "server_msg \<Rightarrow> (string \<Rightarrow> how option) \<Rightarrow> string \<Rightarrow> how option" where
  "learn (Existing_participants ps) k = learn_existing ps k"
| "learn (User_joined p) k = k(p_id p := Some Via_joined)"
| "learn (User_left userId) k = k(userId := None)"
| "learn (Offer_from sender sdp) k = k"
| "learn (Answer_from sender sdp) k = k"
| "learn (Ice_candidate_from sender candidate) k = k"
| "learn (Participant_audio_toggle participantId b) k = k"
| "learn (Participant_video_toggle participantId b) k = k"
| "learn (Chat_message_to msg) k = k"

text \<open>
  The same for all clients at once, a client being known by its socket: \<open>K a b\<close> is how
  the client on socket \<open>a\<close> has learned of \<open>b\<close>. A delivery changes the receiver's part,
  and a run of the relay changes it by everything the relay delivers, in order.
\<close>

definition notice :: "(string \<Rightarrow> string \<Rightarrow> how option) \<Rightarrow> string \<times> server_msg
    \<Rightarrow> string \<Rightarrow> string \<Rightarrow> how option" where
  "notice K d = K(fst d := learn (snd d) (K (fst d)))"



text \<open>The socket ids of the connections in a sequence of events; socket.io never repeats one.\<close>

fun connections :: "event list \<Rightarrow> string list" where
  "connections [] = []"
| "connections (Connection sid # evs) = sid # connections evs"
| "connections (ev # evs) = connections evs"


text \<open>
  A client's emissions, taken to the relay on socket \<open>sid\<close> one after the other, with
  what the relay delivers in answer.
\<close>

fun relay :: "server_state \<Rightarrow> string \<Rightarrow> client_msg list
    \<Rightarrow> server_state \<times> (string \<times> server_msg) list" where
  "relay st sid [] = (st, [])"
| "relay st sid (m # ms) =
     (let (st1, ems) = step st (to_event sid m);
          (st2, ds) = relay st1 sid ms
      in (st2, deliveries (adapter st1) ems @ ds))"

subsection \<open>Example values\<close>

text \<open>
  A browser in which every WebRTC call succeeds, a camera stream, media devices that grant
  every request, and a client whose provider has made its socket and acquired the camera.
\<close>

definition browser_ok :: webrtc where
  "browser_ok =
     \<lparr>createOffer = (\<lambda>pc. Some ''offer-sdp''), createAnswer = (\<lambda>pc. Some ''answer-sdp''),
      setLocalDescription_ok = (\<lambda>pc sdp. True), setRemoteDescription_ok = (\<lambda>pc sdp. True),
      addIceCandidate_ok = (\<lambda>pc candidate. True)\<rparr>"

definition camera :: media_stream where
  "camera = [\<lparr>kind = Audio, enabled = True, stopped = False\<rparr>,
             \<lparr>kind = Video, enabled = True, stopped = False\<rparr>]"

definition devices_ok :: media_devices where
  "devices_ok =
     \<lparr>getUserMedia_preferred = Some camera, getUserMedia_basic = Some camera,
      getDisplayMedia = Some [\<lparr>kind = Video, enabled = True, stopped = False\<rparr>]\<rparr>"

definition ready_client :: client_state where
  "ready_client =
     \<lparr>state = initialState\<lparr>localStream := Some camera,
                              socket := Some (Socket ''http://localhost:3001'')\<rparr>,
      peerConnections = [], localStreamRef = Some camera,
      socketRef = Some (Socket ''http://localhost:3001'')\<rparr>"

text \<open>Every socket has such a client behind it.\<close>

definition all_ready :: "string \<Rightarrow> client_state" where
  "all_ready sid = ready_client"

text \<open>Alice on socket \<open>A\<close> alone in room \<open>r1\<close>, Bob connected on socket \<open>B\<close>.\<close>

definition alice_in_r1 :: server_state where
  "alice_in_r1 = run init [Connection ''A'', Connection ''B'', Join_room ''A'' ''r1'' ''Alice'']"

text \<open>
  Alice and Bob in \<open>r1\<close>, Alice with her audio off; and the events in which Alice
  joins \<open>r1\<close>, Bob joins it, and Alice joins it once more.
\<close>

definition alice_muted :: server_state where
  "alice_muted = run init [Connection ''A'', Connection ''B'', Join_room ''A'' ''r1'' ''Alice'',
     Join_room ''B'' ''r1'' ''Bob'',
     Toggle_audio ''A'' \<lparr>t_roomId = ''r1'', t_enabled = False, named = None\<rparr>]"



text \<open>Alice and Bob both in room \<open>r1\<close>.\<close>

definition both_in_r1 :: server_state where
  "both_in_r1 = run init [Connection ''A'', Connection ''B'', Join_room ''A'' ''r1'' ''Alice'',
                          Join_room ''B'' ''r1'' ''Bob'']"

section \<open>Properties of the relay\<close>

subsection \<open>The registry stays well-formed\<close>

lemma set_update_subset: "set (AList.update k v al) \<subseteq> insert (k, v) (set al)"
  by (induction al) auto

lemma set_delete_subset: "set (AList.delete k al) \<subseteq> set al"
  by (auto simp: AList.delete_eq)

lemma wf_room_update:
  assumes "m = [] \<or> wf_room m" and "p_id p = k"
  shows "wf_room (AList.update k p m)"
proof -
  have d: "distinct (map fst m)" and a: "\<forall>(k', q) \<in> set m. p_id q = k'"
    using assms(1) by (auto simp: wf_room_def list_all_iff)
  have "\<forall>(k', q) \<in> set (AList.update k p m). p_id q = k'"
    using a assms(2) set_update_subset [of k p m] by auto
  then show ?thesis
    using d by (simp add: wf_room_def list_all_iff distinct_update)
qed

lemma wf_rooms_update:
  assumes "wf_rooms rs" and "wf_room m"
  shows "wf_rooms (AList.update r m rs)"
proof -
  have "\<forall>(r', m') \<in> set (AList.update r m rs). wf_room m'"
    using assms set_update_subset [of r m rs] by (auto simp: wf_rooms_def list_all_iff)
  then show ?thesis
    using assms(1) by (simp add: wf_rooms_def list_all_iff distinct_update)
qed

lemma wf_rooms_delete: "wf_rooms rs \<Longrightarrow> wf_rooms (AList.delete r rs)"
  using set_delete_subset [of r rs]
  by (auto simp: wf_rooms_def list_all_iff distinct_delete)

lemma wf_rooms_lookup: "wf_rooms rs \<Longrightarrow> map_of rs r = Some m \<Longrightarrow> wf_room m"
  by (auto simp: wf_rooms_def list_all_iff dest: map_of_SomeD)

lemma wf_room_delete: "wf_room m \<Longrightarrow> AList.delete k m \<noteq> [] \<Longrightarrow> wf_room (AList.delete k m)"
  using set_delete_subset [of k m]
  by (auto simp: wf_room_def list_all_iff distinct_delete)

lemma wf_room_lookup: "wf_room m \<Longrightarrow> map_of m k = Some p \<Longrightarrow> p_id p = k"
  by (auto simp: wf_room_def list_all_iff dest: map_of_SomeD)

lemma room_of_wf: "wf_rooms rs \<Longrightarrow> room_of rs r = [] \<or> wf_room (room_of rs r)"
  by (auto simp: room_of_def Map_get_def split: option.splits dest: wf_rooms_lookup)

lemma join_room_rooms:
  "rooms (fst (join_room st sid r u)) =
     AList.update r
       (AList.update sid \<lparr>p_id = sid, p_name = u, audioEnabled = True, videoEnabled = True\<rparr>
          (room_of (rooms st) r))
       (rooms st)"
  by (simp add: join_room_def Let_def Map_set_def Map_has_def room_of_def Map_get_def update_conv')

lemma wf_join_room: "wf_rooms (rooms st) \<Longrightarrow> wf_rooms (rooms (fst (join_room st sid r u)))"
  unfolding join_room_rooms
  by (rule wf_rooms_update, assumption, rule wf_room_update) (simp_all add: room_of_wf)

lemma toggle_audio_rooms:
  "rooms (fst (toggle_audio st sid pl)) =
     (case map_of (rooms st) (t_roomId pl) of
        None \<Rightarrow> rooms st
      | Some room \<Rightarrow>
          (case map_of room sid of
             None \<Rightarrow> rooms st
           | Some p \<Rightarrow> AList.update (t_roomId pl)
               (AList.update sid (p\<lparr>audioEnabled := t_enabled pl\<rparr>) room) (rooms st)))"
  by (simp add: toggle_audio_def Let_def Map_set_def Map_has_def room_of_def Map_get_def
      split: option.splits)

lemma toggle_video_rooms:
  "rooms (fst (toggle_video st sid pl)) =
     (case map_of (rooms st) (t_roomId pl) of
        None \<Rightarrow> rooms st
      | Some room \<Rightarrow>
          (case map_of room sid of
             None \<Rightarrow> rooms st
           | Some p \<Rightarrow> AList.update (t_roomId pl)
               (AList.update sid (p\<lparr>videoEnabled := t_enabled pl\<rparr>) room) (rooms st)))"
  by (simp add: toggle_video_def Let_def Map_set_def Map_has_def room_of_def Map_get_def
      split: option.splits)

lemma wf_rooms_update_entry:
  assumes "wf_rooms rs" and "map_of rs r = Some room" and "map_of room k = Some p"
    and "p_id q = p_id p"
  shows "wf_rooms (AList.update r (AList.update k q room) rs)"
proof -
  have "wf_room room" using assms(1,2) by (rule wf_rooms_lookup)
  moreover from this have "p_id p = k" using assms(3) by (rule wf_room_lookup)
  ultimately have "wf_room (AList.update k q room)"
    using assms(4) by (intro wf_room_update) simp_all
  with assms(1) show ?thesis by (rule wf_rooms_update)
qed

lemma wf_toggle_audio: "wf_rooms (rooms st) \<Longrightarrow> wf_rooms (rooms (fst (toggle_audio st sid pl)))"
  unfolding toggle_audio_rooms
  by (auto split: option.splits intro: wf_rooms_update_entry)

lemma wf_toggle_video: "wf_rooms (rooms st) \<Longrightarrow> wf_rooms (rooms (fst (toggle_video st sid pl)))"
  unfolding toggle_video_rooms
  by (auto split: option.splits intro: wf_rooms_update_entry)

lemma wf_disconnect: "wf_rooms (rooms st) \<Longrightarrow> wf_rooms (rooms (fst (disconnect st sid)))"
  by (auto simp: disconnect_def Let_def Map_set_def Map_has_def room_of_def Map_get_def
        Map_delete_def Map_size_def
      split: option.splits
      intro!: wf_rooms_update wf_rooms_delete wf_room_delete dest: wf_rooms_lookup)

lemma wf_leave_room: "wf_rooms (rooms st) \<Longrightarrow> wf_rooms (rooms (fst (leave_room st sid)))"
  by (auto simp: leave_room_def Let_def Map_set_def Map_has_def room_of_def Map_get_def
        Map_delete_def Map_size_def
      split: option.splits
      intro!: wf_rooms_update wf_rooms_delete wf_room_delete dest: wf_rooms_lookup)

lemma wf_handle: "wf_rooms (rooms st) \<Longrightarrow> wf_rooms (rooms (fst (handle st ev)))"
  by (cases ev)
    (simp_all add: wf_join_room wf_toggle_audio wf_toggle_video wf_disconnect wf_leave_room
      connection_def offer_def answer_def ice_candidate_def chat_message_def)

lemma wf_step: "wf_rooms (rooms st) \<Longrightarrow> wf_rooms (rooms (fst (step st ev)))"
  by (simp add: step_def wf_handle)

lemma wf_run: "wf_rooms (rooms st) \<Longrightarrow> wf_rooms (rooms (run st evs))"
  by (induction evs arbitrary: st) (simp_all add: wf_step)

lemma wf_init: "wf_rooms (rooms init)"
  by (simp add: wf_rooms_def init_def)

text \<open>The two example states, computed.\<close>

lemma both_in_r1_eq:
  "both_in_r1 =
     \<lparr>rooms = [(''r1'', [(''A'', \<lparr>p_id = ''A'', p_name = ''Alice'', audioEnabled = True,
                                  videoEnabled = True\<rparr>),
                         (''B'', \<lparr>p_id = ''B'', p_name = ''Bob'', audioEnabled = True,
                                  videoEnabled = True\<rparr>)])],
      sockets = [(''A'', \<lparr>sock_userName = Some ''Alice'', sock_roomId = Some ''r1''\<rparr>),
                 (''B'', \<lparr>sock_userName = Some ''Bob'', sock_roomId = Some ''r1''\<rparr>)],
      adapter = [(''r1'', ''B''), (''r1'', ''A''), (''B'', ''B''), (''A'', ''A'')]\<rparr>"
  by (simp add: both_in_r1_def init_def step_def is_connection_def Map_has_def connection_def
      Map_set_def join_room_def Let_def room_of_def Map_get_def Map_values_def)

lemma alice_in_r1_eq:
  "alice_in_r1 =
     \<lparr>rooms = [(''r1'', [(''A'', \<lparr>p_id = ''A'', p_name = ''Alice'', audioEnabled = True,
                                  videoEnabled = True\<rparr>)])],
      sockets = [(''A'', \<lparr>sock_userName = Some ''Alice'', sock_roomId = Some ''r1''\<rparr>),
                 (''B'', \<lparr>sock_userName = None, sock_roomId = None\<rparr>)],
      adapter = [(''r1'', ''A''), (''B'', ''B''), (''A'', ''A'')]\<rparr>"
  by (simp add: alice_in_r1_def init_def step_def is_connection_def Map_has_def connection_def
      Map_set_def join_room_def Let_def room_of_def Map_get_def Map_values_def)

subsection \<open>Joining\<close>

lemma others_after_set:
  assumes "list_all (\<lambda>(k, p). p_id p = k) m" and "p_id self = sid"
  shows "filter (\<lambda>p. p_id p \<noteq> sid) (map snd (AList.update sid self m)) =
         filter (\<lambda>p. p_id p \<noteq> sid) (map snd m)"
  using assms by (induction m) auto

lemma room_of_ids: "wf_rooms rs \<Longrightarrow> list_all (\<lambda>(k, p). p_id p = k) (room_of rs r)"
  using room_of_wf [of rs r] by (auto simp: wf_room_def)

lemma join_room_emissions:
  "snd (join_room st sid r u) =
     (let self = \<lparr>p_id = sid, p_name = u, audioEnabled = True, videoEnabled = True\<rparr>;
          others = filter (\<lambda>p. p_id p \<noteq> sid)
                     (map snd (AList.update sid self (room_of (rooms st) r)))
      in (if others = [] then [] else [Emit sid (Existing_participants others)])
         @ [To r sid (User_joined self)])"
  by (simp add: join_room_def Let_def Map_set_def Map_has_def room_of_def Map_get_def
      Map_values_def update_conv')

lemma received_by_broadcast:
  "received_by sid (map (\<lambda>x. (x, msg)) (filter (\<lambda>s. s \<noteq> sid) xs)) = []"
  by (induction xs) (auto simp: received_by_def)

lemma received_by_append: "received_by sid (xs @ ys) = received_by sid xs @ received_by sid ys"
  by (simp add: received_by_def)

lemma room_of_join_room:
  "room_of (rooms (fst (join_room st sid r u))) r =
     AList.update sid \<lparr>p_id = sid, p_name = u, audioEnabled = True, videoEnabled = True\<rparr>
       (room_of (rooms st) r)"
  by (simp add: join_room_rooms room_of_def Map_get_def update_conv')

lemma join_deliveries_shape:
  "join_deliveries st sid room userName =
     (if filter (\<lambda>p. p_id p \<noteq> sid)
           (Map_values (room_of (rooms (fst (join_room st sid room userName))) room)) = []
      then []
      else [(sid, Existing_participants
               (filter (\<lambda>p. p_id p \<noteq> sid)
                  (Map_values (room_of (rooms (fst (join_room st sid room userName))) room))))])
     @ map (\<lambda>r. (r, User_joined
                       \<lparr>p_id = sid, p_name = userName, audioEnabled = True, videoEnabled = True\<rparr>))
         (filter (\<lambda>s. s \<noteq> sid) (members (adapter (fst (join_room st sid room userName))) room))"
  by (simp add: join_deliveries_def split_beta join_room_emissions Let_def room_of_join_room
      deliveries_def Map_values_def)

text \<open>
  The earlier revision of the join handler changes the state in the same way but
  broadcasts \<open>user-joined\<close> before anything else.
\<close>

lemma join_room_early_order:
  "fst (join_room_early st sid room userName) = fst (join_room st sid room userName) \<and>
   hd (snd (join_room_early st sid room userName)) =
     To room sid (User_joined
       \<lparr>p_id = sid, p_name = userName, audioEnabled = True, videoEnabled = True\<rparr>)"
  by (simp add: join_room_early_def join_room_def Let_def)

text \<open>
  C1, as the relay has it: the deliveries of a join are the \<open>existing-participants\<close>
  message to the joiner, if the room's registry lists anyone else, followed by the
  \<open>user-joined\<close> messages to the other sockets in the room. Whenever
  \<open>existing-participants\<close> is sent it comes before every \<open>user-joined\<close>; when the
  joiner is the only participant listed it is not sent at all.
\<close>

theorem join_deliveries_snapshot_first:
  "join_deliveries st sid room userName =
     (if filter (\<lambda>p. p_id p \<noteq> sid)
           (Map_values (room_of (rooms (fst (join_room st sid room userName))) room)) = []
      then []
      else [(sid, Existing_participants
               (filter (\<lambda>p. p_id p \<noteq> sid)
                  (Map_values (room_of (rooms (fst (join_room st sid room userName))) room))))])
     @ map (\<lambda>r. (r, User_joined
                       \<lparr>p_id = sid, p_name = userName, audioEnabled = True, videoEnabled = True\<rparr>))
         (filter (\<lambda>s. s \<noteq> sid) (members (adapter (fst (join_room st sid room userName))) room))"
  by (rule join_deliveries_shape)

text \<open>Bob joins the room Alice is in: first the snapshot to Bob, then the broadcast to Alice.\<close>

theorem join_deliveries_snapshot_first_witness:
  "join_deliveries alice_in_r1 ''B'' ''r1'' ''Bob'' =
     [(''B'', Existing_participants
         [\<lparr>p_id = ''A'', p_name = ''Alice'', audioEnabled = True, videoEnabled = True\<rparr>]),
      (''A'', User_joined
         \<lparr>p_id = ''B'', p_name = ''Bob'', audioEnabled = True, videoEnabled = True\<rparr>)]"
  using join_deliveries_snapshot_first [of alice_in_r1 "''B''" "''r1''" "''Bob''"]
  by (simp add: alice_in_r1_def init_def step_def is_connection_def Map_has_def connection_def
      Map_set_def join_room_def Let_def room_of_def Map_get_def Map_values_def members_def)

text \<open>
  C1 as stated fails where the registry lists the joiner alone. Bob joins the empty room
  \<open>r2\<close>: the only emission is the broadcast, with no \<open>existing-participants\<close> before
  it. And Bob joins the room named by Alice's socket id, where socket.io has Alice but the
  registry has no one: Alice is told of Bob, and Bob has been sent nothing.
\<close>

theorem join_alone_only_broadcast:
  "snd (join_room alice_in_r1 ''B'' ''r2'' ''Bob'') =
     [To ''r2'' ''B'' (User_joined
        \<lparr>p_id = ''B'', p_name = ''Bob'', audioEnabled = True, videoEnabled = True\<rparr>)]
   \<and> join_deliveries alice_in_r1 ''B'' ''A'' ''Bob'' =
     [(''A'', User_joined
        \<lparr>p_id = ''B'', p_name = ''Bob'', audioEnabled = True, videoEnabled = True\<rparr>)]"
  by (simp add: alice_in_r1_eq join_deliveries_def deliveries_def members_def
      Map_set_def Map_has_def join_room_def Let_def room_of_def Map_get_def Map_values_def)

text \<open>
  C3, as the relay has it: after any sequence of events, a socket that joins a room whose
  registry lists N other participants receives from the join exactly one message,
  \<open>existing-participants\<close> with those N participants in the order of the registry, when
  N is at least 1, and no message at all when N is 0.
\<close>

theorem join_existing_participants_message:
  "received_by sid (join_deliveries (run init evs) sid room userName) =
     (if filter (\<lambda>p. p_id p \<noteq> sid) (Map_values (room_of (rooms (run init evs)) room)) = []
      then []
      else [Existing_participants
              (filter (\<lambda>p. p_id p \<noteq> sid) (Map_values (room_of (rooms (run init evs)) room)))])"
proof -
  let ?st = "run init evs"
  let ?self = "\<lparr>p_id = sid, p_name = userName, audioEnabled = True, videoEnabled = True\<rparr>"
  have "wf_rooms (rooms ?st)" by (simp add: wf_run wf_init)
  then have same: "filter (\<lambda>p. p_id p \<noteq> sid)
        (map snd (AList.update sid ?self (room_of (rooms ?st) room))) =
      filter (\<lambda>p. p_id p \<noteq> sid) (map snd (room_of (rooms ?st) room))"
    by (intro others_after_set room_of_ids) simp_all
  show ?thesis
    by (simp add: join_deliveries_def split_beta join_room_emissions Let_def same
        deliveries_def received_by_append received_by_broadcast Map_values_def)
      (simp add: received_by_def)
qed

text \<open>Bob joins the room Alice is in and receives the list with Alice.\<close>

theorem join_existing_participants_message_witness:
  "received_by ''B'' (join_deliveries alice_in_r1 ''B'' ''r1'' ''Bob'') =
     [Existing_participants
        [\<lparr>p_id = ''A'', p_name = ''Alice'', audioEnabled = True, videoEnabled = True\<rparr>]]"
  using join_existing_participants_message
    [of "''B''" "[Connection ''A'', Connection ''B'', Join_room ''A'' ''r1'' ''Alice'']"
        "''r1''" "''Bob''"]
  by (simp add: alice_in_r1_def init_def step_def is_connection_def Map_has_def connection_def
      Map_set_def join_room_def Let_def room_of_def Map_get_def Map_values_def)

text \<open>
  C3 as stated fails for N = 0: Alice is the first to join \<open>r1\<close> and receives nothing,
  not an \<open>existing-participants\<close> message with the empty list.
\<close>

theorem first_joiner_receives_nothing:
  "received_by ''A'' (join_deliveries (run init [Connection ''A'']) ''A'' ''r1'' ''Alice'') = []"
  by (simp add: join_deliveries_def deliveries_def received_by_def members_def
      init_def step_def is_connection_def Map_has_def connection_def
      Map_set_def join_room_def Let_def room_of_def Map_get_def Map_values_def)

lemma join_room_twice:
  "fst (join_room (fst (join_room st sid room u1)) sid room u2) = fst (join_room st sid room u2)"
  by (simp add: join_room_def Let_def Map_set_def Map_has_def room_of_def Map_get_def update_conv')

lemma room_of_join_room_any:
  "room_of (rooms (fst (join_room st sid r u))) r' =
     (if r' = r
      then AList.update sid \<lparr>p_id = sid, p_name = u, audioEnabled = True, videoEnabled = True\<rparr>
             (room_of (rooms st) r)
      else room_of (rooms st) r')"
  by (simp add: join_room_rooms room_of_def Map_get_def update_conv')

lemma filter_key_absent: "k \<notin> fst ` set m \<Longrightarrow> filter (\<lambda>(k', p). k' = k) m = []"
  by (induction m) auto

lemma count_key_distinct:
  "distinct (map fst m) \<Longrightarrow>
     length (filter (\<lambda>(k', p). k' = k) m) = (if k \<in> fst ` set m then 1 else 0)"
  by (induction m) (force simp: filter_key_absent)+

lemma alice_muted_eq:
  "alice_muted =
     \<lparr>rooms = [(''r1'', [(''A'', \<lparr>p_id = ''A'', p_name = ''Alice'', audioEnabled = False,
                                    videoEnabled = True\<rparr>),
                         (''B'', \<lparr>p_id = ''B'', p_name = ''Bob'', audioEnabled = True,
                                    videoEnabled = True\<rparr>)])],
      sockets = [(''A'', \<lparr>sock_userName = Some ''Alice'', sock_roomId = Some ''r1''\<rparr>),
                 (''B'', \<lparr>sock_userName = Some ''Bob'', sock_roomId = Some ''r1''\<rparr>)],
      adapter = adapter both_in_r1\<rparr>"
  by (simp add: alice_muted_def both_in_r1_eq init_def step_def is_connection_def Map_has_def
      connection_def Map_set_def join_room_def Let_def room_of_def Map_get_def Map_values_def
      toggle_audio_def)

text \<open>
  C8, as the relay has it. Whatever the state of the relay, and so whatever joins and
  toggles of the socket have gone before, a join leaves the room with the socket's entry
  set to the new record (the id, the name given, audio and video on): the entry is found
  under the socket's id with exactly that record, it stands where the socket's entry stood
  if there was one and at the end otherwise, every other entry of the room and every
  other room are as before, and joining once more gives the state that the last join
  alone would. After any sequence of events no room name occurs twice in the registry and
  no socket id twice in a room, and after a join the room has exactly one entry with the
  socket's id.
\<close>

theorem rejoin_replaces_within_room:
  "room_of (rooms (fst (join_room st sid room u))) room =
     Map_set (room_of (rooms st) room) sid
       \<lparr>p_id = sid, p_name = u, audioEnabled = True, videoEnabled = True\<rparr>
   \<and> Map_get (room_of (rooms (fst (join_room st sid room u))) room) sid =
       Some \<lparr>p_id = sid, p_name = u, audioEnabled = True, videoEnabled = True\<rparr>
   \<and> map fst (room_of (rooms (fst (join_room st sid room u))) room) =
       (if Map_has (room_of (rooms st) room) sid then map fst (room_of (rooms st) room)
        else map fst (room_of (rooms st) room) @ [sid])
   \<and> (k \<noteq> sid \<longrightarrow>
        Map_get (room_of (rooms (fst (join_room st sid room u))) room) k =
          Map_get (room_of (rooms st) room) k)
   \<and> (r \<noteq> room \<longrightarrow>
        room_of (rooms (fst (join_room st sid room u))) r = room_of (rooms st) r)
   \<and> fst (join_room (fst (join_room st sid room u)) sid room u') =
       fst (join_room st sid room u')
   \<and> distinct (map fst (rooms (run init evs)))
   \<and> distinct (map fst (room_of (rooms (run init evs)) r))
   \<and> length (filter (\<lambda>(k', p). k' = sid)
         (room_of (rooms (fst (join_room (run init evs) sid room u))) room)) = 1"
proof -
  have wf: "wf_rooms (rooms (run init evs))" by (simp add: wf_run wf_init)
  then have d1: "distinct (map fst (rooms (run init evs)))" by (simp add: wf_rooms_def)
  have d2: "distinct (map fst (room_of (rooms (run init evs)) r'))" for r'
    using room_of_wf [OF wf, of r'] by (auto simp: wf_room_def)
  have "distinct (map fst (room_of (rooms (fst (join_room (run init evs) sid room u))) room))"
    unfolding room_of_join_room using d2 [of room] by (simp add: distinct_update)
  then have one: "length (filter (\<lambda>(k', p). k' = sid)
         (room_of (rooms (fst (join_room (run init evs) sid room u))) room)) = 1"
    by (simp add: count_key_distinct) (simp add: room_of_join_room dom_update)
  show ?thesis
    using d1 d2 [of r] one
    by (simp add: room_of_join_room room_of_join_room_any join_room_twice Map_set_def Map_get_def
        Map_has_def update_conv' update_keys map_of_eq_None_iff)
qed

text \<open>
  Alice has her audio off in \<open>r1\<close> and joins \<open>r1\<close> a second time under another name:
  her entry is the new record with audio on, in the first place as before, and Bob's entry
  and the room \<open>r2\<close> are untouched.
\<close>

theorem rejoin_replaces_within_room_witness:
  "Map_get (room_of (rooms alice_muted) ''r1'') ''A'' =
     Some \<lparr>p_id = ''A'', p_name = ''Alice'', audioEnabled = False, videoEnabled = True\<rparr>
   \<and> rooms (fst (join_room alice_muted ''A'' ''r1'' ''Alicia'')) =
     [(''r1'', [(''A'', \<lparr>p_id = ''A'', p_name = ''Alicia'', audioEnabled = True,
                          videoEnabled = True\<rparr>),
                (''B'', \<lparr>p_id = ''B'', p_name = ''Bob'', audioEnabled = True,
                          videoEnabled = True\<rparr>)])]
   \<and> ''B'' \<noteq> ''A'' \<and> ''r2'' \<noteq> ''r1''
   \<and> Map_get (room_of (rooms (fst (join_room alice_muted ''A'' ''r1'' ''Alicia''))) ''r1'') ''B'' =
       Map_get (room_of (rooms alice_muted) ''r1'') ''B''
   \<and> room_of (rooms (fst (join_room alice_muted ''A'' ''r1'' ''Alicia''))) ''r2'' =
       room_of (rooms alice_muted) ''r2''"
  using rejoin_replaces_within_room
    [where st = alice_muted and sid = "''A''" and room = "''r1''" and u = "''Alicia''"
       and k = "''B''" and r = "''r2''" and u' = "''Alice''"
       and evs = "[Connection ''A'', Connection ''B'', Join_room ''A'' ''r1'' ''Alice'',
                   Join_room ''B'' ''r1'' ''Bob'']"]
  by (simp add: alice_muted_eq join_room_def Let_def Map_set_def Map_has_def room_of_def
      Map_get_def Map_values_def)

text \<open>
  C8 as stated fails across rooms: a socket that joins \<open>r1\<close> and then \<open>r2\<close> is listed
  in both, so its id occurs twice in the registry.
\<close>

theorem two_rooms_two_entries:
  "map fst (concat (map snd (rooms (run init
     [Connection ''c'', Join_room ''c'' ''r1'' ''u'', Join_room ''c'' ''r2'' ''u''])))) =
   [''c'', ''c'']"
  by (simp add: init_def step_def is_connection_def Map_has_def connection_def
      Map_set_def join_room_def Let_def room_of_def Map_get_def Map_values_def)

subsection \<open>Toggles\<close>

lemma entry_update_frame:
  assumes "map_of rs r0 = Some room" and "map_of room k0 = Some p"
  shows "map fst (AList.update r0 (AList.update k0 q room) rs) = map fst rs"
    and "map fst (room_of (AList.update r0 (AList.update k0 q room) rs) r) = map fst (room_of rs r)"
    and "(r, k) \<noteq> (r0, k0) \<Longrightarrow>
           Map_get (room_of (AList.update r0 (AList.update k0 q room) rs) r) k =
           Map_get (room_of rs r) k"
    and "Map_get (room_of (AList.update r0 (AList.update k0 q room) rs) r0) k0 = Some q"
proof -
  have r0: "r0 \<in> set (map fst rs)" and k0: "k0 \<in> set (map fst room)"
    using assms by (auto dest!: map_of_SomeD intro: rev_image_eqI)
  show "map fst (AList.update r0 (AList.update k0 q room) rs) = map fst rs"
    using r0 by (simp add: update_keys)
  show "map fst (room_of (AList.update r0 (AList.update k0 q room) rs) r) = map fst (room_of rs r)"
    using assms(1) k0 by (simp add: room_of_def Map_get_def update_conv' update_keys)
  show "Map_get (room_of (AList.update r0 (AList.update k0 q room) rs) r) k =
        Map_get (room_of rs r) k" if "(r, k) \<noteq> (r0, k0)"
    using assms(1) that by (auto simp: room_of_def Map_get_def update_conv')
  show "Map_get (room_of (AList.update r0 (AList.update k0 q room) rs) r0) k0 = Some q"
    by (simp add: room_of_def Map_get_def update_conv')
qed

lemma toggle_audio_frame:
  "map fst (rooms (fst (toggle_audio st sid pl))) = map fst (rooms st)"
  "map fst (room_of (rooms (fst (toggle_audio st sid pl))) r) = map fst (room_of (rooms st) r)"
  "(r, k) \<noteq> (t_roomId pl, sid) \<Longrightarrow>
     Map_get (room_of (rooms (fst (toggle_audio st sid pl))) r) k = Map_get (room_of (rooms st) r) k"
  unfolding toggle_audio_rooms
  by (simp_all add: entry_update_frame split: option.splits)

lemma toggle_video_frame:
  "map fst (rooms (fst (toggle_video st sid pl))) = map fst (rooms st)"
  "map fst (room_of (rooms (fst (toggle_video st sid pl))) r) = map fst (room_of (rooms st) r)"
  "(r, k) \<noteq> (t_roomId pl, sid) \<Longrightarrow>
     Map_get (room_of (rooms (fst (toggle_video st sid pl))) r) k = Map_get (room_of (rooms st) r) k"
  unfolding toggle_video_rooms
  by (simp_all add: entry_update_frame split: option.splits)

lemma toggle_own_record:
  assumes "Map_get (room_of (rooms st) (t_roomId pl)) sid = Some p"
  shows "Map_get (room_of (rooms (fst (toggle_audio st sid pl))) (t_roomId pl)) sid =
           Some (p\<lparr>audioEnabled := t_enabled pl\<rparr>)"
    and "Map_get (room_of (rooms (fst (toggle_video st sid pl))) (t_roomId pl)) sid =
           Some (p\<lparr>videoEnabled := t_enabled pl\<rparr>)"
proof -
  obtain room where room: "map_of (rooms st) (t_roomId pl) = Some room"
    and p: "map_of room sid = Some p"
    using assms by (auto simp: room_of_def Map_get_def split: option.splits)
  show "Map_get (room_of (rooms (fst (toggle_audio st sid pl))) (t_roomId pl)) sid =
           Some (p\<lparr>audioEnabled := t_enabled pl\<rparr>)"
    unfolding toggle_audio_rooms using room p by (simp add: entry_update_frame(4))
  show "Map_get (room_of (rooms (fst (toggle_video st sid pl))) (t_roomId pl)) sid =
           Some (p\<lparr>videoEnabled := t_enabled pl\<rparr>)"
    unfolding toggle_video_rooms using room p by (simp add: entry_update_frame(4))
qed

lemma toggle_rest:
  "sockets (fst (toggle_audio st sid pl)) = sockets st"
  "adapter (fst (toggle_audio st sid pl)) = adapter st"
  "sockets (fst (toggle_video st sid pl)) = sockets st"
  "adapter (fst (toggle_video st sid pl)) = adapter st"
  "toggle_audio st sid (pl\<lparr>named := n\<rparr>) = toggle_audio st sid pl"
  "toggle_video st sid (pl\<lparr>named := n\<rparr>) = toggle_video st sid pl"
  by (simp_all add: toggle_audio_def toggle_video_def Let_def split: option.splits)

text \<open>
  C5, as the relay has it: a \<open>toggle-audio\<close> or \<open>toggle-video\<close> event leaves the
  sockets, the membership, the room names and the ids listed in every room as they are;
  every record other than the sender's own in the room the message gives is unchanged; the
  sender's own record there changes in the one flag only; and a participant the message
  names is never read, so the outcome is the same whatever it names.
\<close>

theorem toggle_changes_only_own_record:
  "sockets (fst (toggle_audio st sid pl)) = sockets st
   \<and> adapter (fst (toggle_audio st sid pl)) = adapter st
   \<and> map fst (rooms (fst (toggle_audio st sid pl))) = map fst (rooms st)
   \<and> map fst (room_of (rooms (fst (toggle_audio st sid pl))) r) = map fst (room_of (rooms st) r)
   \<and> ((r, k) \<noteq> (t_roomId pl, sid) \<longrightarrow>
        Map_get (room_of (rooms (fst (toggle_audio st sid pl))) r) k =
        Map_get (room_of (rooms st) r) k)
   \<and> (Map_get (room_of (rooms st) (t_roomId pl)) sid = Some p \<longrightarrow>
        Map_get (room_of (rooms (fst (toggle_audio st sid pl))) (t_roomId pl)) sid =
        Some (p\<lparr>audioEnabled := t_enabled pl\<rparr>))
   \<and> toggle_audio st sid (pl\<lparr>named := n\<rparr>) = toggle_audio st sid pl
   \<and> sockets (fst (toggle_video st sid pl)) = sockets st
   \<and> adapter (fst (toggle_video st sid pl)) = adapter st
   \<and> map fst (rooms (fst (toggle_video st sid pl))) = map fst (rooms st)
   \<and> map fst (room_of (rooms (fst (toggle_video st sid pl))) r) = map fst (room_of (rooms st) r)
   \<and> ((r, k) \<noteq> (t_roomId pl, sid) \<longrightarrow>
        Map_get (room_of (rooms (fst (toggle_video st sid pl))) r) k =
        Map_get (room_of (rooms st) r) k)
   \<and> (Map_get (room_of (rooms st) (t_roomId pl)) sid = Some p \<longrightarrow>
        Map_get (room_of (rooms (fst (toggle_video st sid pl))) (t_roomId pl)) sid =
        Some (p\<lparr>videoEnabled := t_enabled pl\<rparr>))
   \<and> toggle_video st sid (pl\<lparr>named := n\<rparr>) = toggle_video st sid pl"
proof (intro conjI impI)
  assume "(r, k) \<noteq> (t_roomId pl, sid)"
  then show "Map_get (room_of (rooms (fst (toggle_audio st sid pl))) r) k =
      Map_get (room_of (rooms st) r) k"
    by (rule toggle_audio_frame)
next
  assume "(r, k) \<noteq> (t_roomId pl, sid)"
  then show "Map_get (room_of (rooms (fst (toggle_video st sid pl))) r) k =
      Map_get (room_of (rooms st) r) k"
    by (rule toggle_video_frame)
next
  assume "Map_get (room_of (rooms st) (t_roomId pl)) sid = Some p"
  then show "Map_get (room_of (rooms (fst (toggle_audio st sid pl))) (t_roomId pl)) sid =
      Some (p\<lparr>audioEnabled := t_enabled pl\<rparr>)"
    by (rule toggle_own_record)
next
  assume "Map_get (room_of (rooms st) (t_roomId pl)) sid = Some p"
  then show "Map_get (room_of (rooms (fst (toggle_video st sid pl))) (t_roomId pl)) sid =
      Some (p\<lparr>videoEnabled := t_enabled pl\<rparr>)"
    by (rule toggle_own_record)
qed (simp_all add: toggle_rest toggle_audio_frame toggle_video_frame)

text \<open>
  Alice switches her audio off in a message that names Bob: Bob's record is as before,
  Alice's has the flag off; likewise for video.
\<close>

theorem toggle_changes_only_own_record_witness:
  "Map_get (room_of (rooms (fst (toggle_audio both_in_r1 ''A''
       \<lparr>t_roomId = ''r1'', t_enabled = False, named = Some ''B''\<rparr>))) ''r1'') ''B'' =
     Some \<lparr>p_id = ''B'', p_name = ''Bob'', audioEnabled = True, videoEnabled = True\<rparr>
   \<and> Map_get (room_of (rooms (fst (toggle_audio both_in_r1 ''A''
       \<lparr>t_roomId = ''r1'', t_enabled = False, named = Some ''B''\<rparr>))) ''r1'') ''A'' =
     Some \<lparr>p_id = ''A'', p_name = ''Alice'', audioEnabled = False, videoEnabled = True\<rparr>
   \<and> Map_get (room_of (rooms (fst (toggle_video both_in_r1 ''A''
       \<lparr>t_roomId = ''r1'', t_enabled = False, named = Some ''B''\<rparr>))) ''r1'') ''B'' =
     Some \<lparr>p_id = ''B'', p_name = ''Bob'', audioEnabled = True, videoEnabled = True\<rparr>
   \<and> Map_get (room_of (rooms (fst (toggle_video both_in_r1 ''A''
       \<lparr>t_roomId = ''r1'', t_enabled = False, named = Some ''B''\<rparr>))) ''r1'') ''A'' =
     Some \<lparr>p_id = ''A'', p_name = ''Alice'', audioEnabled = True, videoEnabled = False\<rparr>"
  using toggle_changes_only_own_record [of both_in_r1 "''A''"
      "\<lparr>t_roomId = ''r1'', t_enabled = False, named = Some ''B''\<rparr>" "''r1''" "''B''"
      "\<lparr>p_id = ''A'', p_name = ''Alice'', audioEnabled = True, videoEnabled = True\<rparr>" "None"]
  by (simp add: both_in_r1_eq room_of_def Map_get_def)

text \<open>
  C5 as stated fails in its last part: a toggle that names Bob, sent by Alice, is not
  without effect on the registry, it changes Alice's record.
\<close>

theorem toggle_naming_other_still_changes_registry:
  "rooms (fst (toggle_audio both_in_r1 ''A''
      \<lparr>t_roomId = ''r1'', t_enabled = False, named = Some ''B''\<rparr>)) \<noteq> rooms both_in_r1"
  by (simp add: both_in_r1_eq toggle_audio_def Let_def Map_has_def Map_get_def Map_set_def
      room_of_def)

subsection \<open>Leaving and disconnecting\<close>

text \<open>
  What the handlers do keep, after any sequence of events: no room of the registry is
  empty, and every socket that socket.io has in a room other than its own is listed in
  that room.
\<close>

lemma room_of_after_removal:
  "room_of (if Map_size m = 0 then Map_delete rs r0 else Map_set rs r0 m) r =
     (if r = r0 then m else room_of rs r)"
  by (auto simp: room_of_def Map_get_def Map_size_def Map_delete_def Map_set_def
      delete_conv' update_conv')

lemma Map_has_delete: "Map_has (Map_delete m k) k' = (k' \<noteq> k \<and> Map_has m k')"
  by (simp add: Map_has_def Map_delete_def delete_conv')

lemma Map_has_update: "Map_has (AList.update k v m) k' = (k' = k \<or> Map_has m k')"
  by (simp add: Map_has_def update_conv')

lemma Map_has_keys: "Map_has m k = (k \<in> set (map fst m))"
  by (simp add: Map_has_def map_of_eq_None_iff)

lemma registeredD:
  "registered st \<Longrightarrow> (r, s) \<in> set (adapter st) \<Longrightarrow> r \<noteq> s
     \<Longrightarrow> Map_has (room_of (rooms st) r) s"
  by (auto simp: registered_def list_all_iff)

lemma registeredI:
  assumes "\<And>r s. (r, s) \<in> set (adapter st) \<Longrightarrow> r \<noteq> s
             \<Longrightarrow> Map_has (room_of (rooms st) r) s"
  shows "registered st"
  using assms by (auto simp: registered_def list_all_iff)

lemma registered_connection: "registered st \<Longrightarrow> registered (connection st sid)"
  by (auto simp: registered_def connection_def list_all_iff)

lemma registered_join_room: "registered st \<Longrightarrow> registered (fst (join_room st sid r u))"
proof -
  assume a: "registered st"
  have ad: "adapter (fst (join_room st sid r u)) = List.insert (r, sid) (adapter st)"
    by (simp add: join_room_def Let_def)
  have ro: "room_of (rooms (fst (join_room st sid r u))) r' =
      (if r' = r then AList.update sid
         \<lparr>p_id = sid, p_name = u, audioEnabled = True, videoEnabled = True\<rparr> (room_of (rooms st) r)
       else room_of (rooms st) r')" for r'
    by (simp add: join_room_rooms room_of_def Map_get_def update_conv')
  show ?thesis
  proof (rule registeredI)
    fix r' s assume "(r', s) \<in> set (adapter (fst (join_room st sid r u)))" and "r' \<noteq> s"
    then show "Map_has (room_of (rooms (fst (join_room st sid r u))) r') s"
      using registeredD [OF a, of r' s] by (auto simp: ad ro Map_has_update)
  qed
qed

lemma registered_toggle:
  "registered st \<Longrightarrow> registered (fst (toggle_audio st sid pl))"
  "registered st \<Longrightarrow> registered (fst (toggle_video st sid pl))"
  by (simp_all add: registered_def Map_has_keys toggle_audio_frame toggle_video_frame toggle_rest)

lemma registered_disconnect:
  assumes "registered st"
  shows "registered (fst (disconnect st sid))"
proof (rule registeredI)
  fix r s assume "(r, s) \<in> set (adapter (fst (disconnect st sid)))" and "r \<noteq> s"
  then have "(r, s) \<in> set (adapter st)" and "s \<noteq> sid"
    by (auto simp: disconnect_def Let_def split: option.splits if_splits)
  then show "Map_has (room_of (rooms (fst (disconnect st sid))) r) s"
    using registeredD [OF assms, of r s] \<open>r \<noteq> s\<close>
    by (auto simp: disconnect_def Let_def room_of_after_removal Map_has_delete
        split: option.splits)
qed

lemma registered_leave_room:
  assumes "registered st"
  shows "registered (fst (leave_room st sid))"
proof (rule registeredI)
  fix r s assume in_ad: "(r, s) \<in> set (adapter (fst (leave_room st sid)))" and "r \<noteq> s"
  then have "(r, s) \<in> set (adapter st)"
    by (auto simp: leave_room_def Let_def split: option.splits if_splits)
  then have "Map_has (room_of (rooms st) r) s"
    using registeredD [OF assms, of r s] \<open>r \<noteq> s\<close> by simp
  then show "Map_has (room_of (rooms (fst (leave_room st sid))) r) s"
    using in_ad
    by (auto simp: leave_room_def Let_def room_of_after_removal Map_has_delete
        split: option.splits)
qed

lemma registered_handle: "registered st \<Longrightarrow> registered (fst (handle st ev))"
  by (cases ev)
    (simp_all add: registered_connection registered_join_room registered_toggle
      registered_disconnect registered_leave_room offer_def answer_def ice_candidate_def
      chat_message_def)

lemma registered_run: "registered st \<Longrightarrow> registered (run st evs)"
  by (induction evs arbitrary: st) (simp_all add: step_def registered_handle)

lemma joined_is_registered:
  assumes "(r, s) \<in> set (adapter (run init evs))" and "r \<noteq> s"
  shows "Map_has (room_of (rooms (run init evs)) r) s"
proof -
  have "registered (run init evs)"
    by (rule registered_run) (simp add: registered_def init_def)
  then show ?thesis using assms by (auto simp: registered_def list_all_iff)
qed

lemma no_empty_room:
  assumes "(r, m) \<in> set (rooms (run init evs))"
  shows "m \<noteq> []"
  using wf_run [OF wf_init, of evs] assms by (auto simp: wf_rooms_def wf_room_def list_all_iff)

text \<open>
  C2 at a failing input: a socket joins \<open>r1\<close>, then \<open>r2\<close>, then disconnects. The
  handler cleans up \<open>socket.roomId\<close>, which is \<open>r2\<close>; the entry in \<open>r1\<close> stays in the
  registry although the socket is gone and socket.io has no one in \<open>r1\<close>: the
  listing can outlive the membership.
\<close>

theorem stale_entry_after_disconnect:
  "run init [Connection ''c'', Join_room ''c'' ''r1'' ''u'', Join_room ''c'' ''r2'' ''u'',
             Disconnect ''c''] =
   \<lparr>rooms = [(''r1'', [(''c'', \<lparr>p_id = ''c'', p_name = ''u'', audioEnabled = True,
                                videoEnabled = True\<rparr>)])],
    sockets = [], adapter = []\<rparr>"
  by (simp add: init_def step_def is_connection_def Map_has_def connection_def
      Map_set_def join_room_def Let_def room_of_def Map_get_def Map_values_def disconnect_def
      Map_delete_def Map_size_def)

subsection \<open>Chat\<close>

text \<open>
  C9: for every state, sending socket, room id and message, the chat handler leaves the
  state alone and passes the message as it came to every socket that socket.io has in
  the room of that id, except the sender. Nothing is asked of the state: the sender need
  not have joined the room and the registry need not know it.
\<close>

theorem chat_message_relayed_unchecked:
  "fst (handle st (Chat_message sid room msg)) = st
   \<and> snd (handle st (Chat_message sid room msg)) = [To room sid (Chat_message_to msg)]
   \<and> deliveries (adapter st) (snd (handle st (Chat_message sid room msg))) =
       map (\<lambda>r. (r, Chat_message_to msg)) (filter (\<lambda>s. s \<noteq> sid) (members (adapter st) room))"
  by (simp add: chat_message_def deliveries_def)

text \<open>
  Bob has joined nothing and sends a message that claims to come from Alice: once to
  \<open>r1\<close>, where Alice is, and once to the room of Alice's socket id, which is no room of
  the registry. Alice receives it both times.
\<close>

theorem chat_message_relayed_unchecked_witness:
  "deliveries (adapter alice_in_r1)
     (snd (handle alice_in_r1 (Chat_message ''B'' ''r1''
        \<lparr>m_id = ''1'', senderId = ''A'', senderName = ''Alice'', message = ''hi'',
         timestamp = 1\<rparr>))) =
     [(''A'', Chat_message_to \<lparr>m_id = ''1'', senderId = ''A'', senderName = ''Alice'',
                               message = ''hi'', timestamp = 1\<rparr>)]
   \<and> Map_get (room_of (rooms alice_in_r1) ''r1'') ''B'' = None
   \<and> Map_has (rooms alice_in_r1) ''A'' = False
   \<and> deliveries (adapter alice_in_r1)
     (snd (handle alice_in_r1 (Chat_message ''B'' ''A''
        \<lparr>m_id = ''1'', senderId = ''A'', senderName = ''Alice'', message = ''hi'',
         timestamp = 1\<rparr>))) =
     [(''A'', Chat_message_to \<lparr>m_id = ''1'', senderId = ''A'', senderName = ''Alice'',
                               message = ''hi'', timestamp = 1\<rparr>)]"
  using chat_message_relayed_unchecked [of alice_in_r1 "''B''" "''r1''"
      "\<lparr>m_id = ''1'', senderId = ''A'', senderName = ''Alice'', message = ''hi'', timestamp = 1\<rparr>"]
    chat_message_relayed_unchecked [of alice_in_r1 "''B''" "''A''"
      "\<lparr>m_id = ''1'', senderId = ''A'', senderName = ''Alice'', message = ''hi'', timestamp = 1\<rparr>"]
  by (simp add: alice_in_r1_eq members_def room_of_def Map_get_def Map_has_def
      chat_message_def deliveries_def)

lemma toString_42: "toString 42 = ''42''"
  by (simp add: toString.simps)

text \<open>
  C6 at a failing input: Alice and Bob are in \<open>r1\<close> and Alice's client sends \<open>hi\<close>
  through \<open>sendChatMessage\<close>. Bob receives the text and Alice receives nothing, but the
  sender id that arrives is the constant \<open>current-user\<close> under the name \<open>You\<close>, not an
  id of Alice.
\<close>

theorem chat_sender_id_is_placeholder:
  "snd (relay both_in_r1 ''A''
          (snd (sendChatMessage 42 (dispatch ready_client (SET_ROOM_ID ''r1'')) ''hi''))) =
     [(''B'', Chat_message_to \<lparr>m_id = ''42'', senderId = ''current-user'', senderName = ''You'',
                               message = ''hi'', timestamp = 42\<rparr>)]"
  by (simp add: sendChatMessage_def dispatch_def ready_client_def both_in_r1_eq step_def
      is_connection_def Map_has_def chat_message_def deliveries_def members_def toString_42
      Let_def)

text \<open>
  What does hold of a chat message in general: every other socket in the room receives
  the text, the sender does not.
\<close>

lemma chat_reaches_other_members:
  assumes "Map_has (sockets st) sid" and "socketRef cs \<noteq> None" and "roomId (state cs) = Some room"
    and "room \<noteq> []"
  shows "snd (relay st sid (snd (sendChatMessage now cs text))) =
           map (\<lambda>r. (r, Chat_message_to \<lparr>m_id = toString now, senderId = ''current-user'',
                        senderName = ''You'', message = text, timestamp = int now\<rparr>))
             (filter (\<lambda>s. s \<noteq> sid) (members (adapter st) room))"
  using assms
  by (simp add: sendChatMessage_def step_def is_connection_def chat_message_def deliveries_def
      Let_def)

section \<open>Properties of the client\<close>

subsection \<open>The stream behind the ref\<close>

text \<open>
  A client with its camera mutes: the track that \<open>localStreamRef.current\<close> gives is the
  muted one, as it is one object with the track of \<open>state.localStream\<close>.
\<close>

lemma dispatch_toggle_shows_in_ref:
  "localStreamRef (dispatch ready_client TOGGLE_AUDIO) =
     Some [\<lparr>kind = Audio, enabled = False, stopped = False\<rparr>,
           \<lparr>kind = Video, enabled = True, stopped = False\<rparr>]"
  by (simp add: dispatch_def writes_tracks_def ready_client_def initialState_def camera_def
      set_enabled_def)

subsection \<open>Leaving\<close>

text \<open>
  C10: \<open>CLEAR_ROOM\<close> gives the state in which every field has its initial value, except
  \<open>socket\<close>, which is as before; and that is the reducer state \<open>leaveRoom\<close> ends in.
\<close>

theorem clear_room_keeps_only_socket:
  "videoReducer s CLEAR_ROOM =
     \<lparr>localStream = None, participants = [], isAudioEnabled = True, isVideoEnabled = True,
      isScreenSharing = False, roomId = None, chatMessages = [], socket = socket s,
      isConnected = False\<rparr>
   \<and> localStream (videoReducer s CLEAR_ROOM) = localStream initialState
   \<and> participants (videoReducer s CLEAR_ROOM) = participants initialState
   \<and> isAudioEnabled (videoReducer s CLEAR_ROOM) = isAudioEnabled initialState
   \<and> isVideoEnabled (videoReducer s CLEAR_ROOM) = isVideoEnabled initialState
   \<and> isScreenSharing (videoReducer s CLEAR_ROOM) = isScreenSharing initialState
   \<and> roomId (videoReducer s CLEAR_ROOM) = roomId initialState
   \<and> chatMessages (videoReducer s CLEAR_ROOM) = chatMessages initialState
   \<and> isConnected (videoReducer s CLEAR_ROOM) = isConnected initialState
   \<and> socket (videoReducer s CLEAR_ROOM) = socket s
   \<and> state (fst (leaveRoom cs)) = videoReducer (state cs) CLEAR_ROOM"
  by (simp add: initialState_def leaveRoom_def dispatch_def)

subsection \<open>Inbound offers\<close>

text \<open>
  C7, as the client has it: an offer from a sender for whom there is no peer connection is
  dropped, the state stays as it is and nothing is sent. An offer from a sender whose
  peer connection exists and is not closed becomes its remote description, an answer is
  created, made the local description and sent back to the sender, provided the browser's
  calls succeed and the socket exists.
\<close>

theorem handleOffer_answers_on_open_link:
  "(Map_get (peerConnections cs) sender = None \<longrightarrow> handleOffer rtc cs sender sdp = (cs, []))
   \<and> (Map_get (peerConnections cs) sender = Some pc
        \<and> signalingState pc \<noteq> Signaling_closed
        \<and> setRemoteDescription_ok rtc pc sdp
        \<and> createAnswer rtc (pc\<lparr>remoteDescription := Some sdp,
                                 signalingState := Have_remote_offer\<rparr>) = Some ans
        \<and> setLocalDescription_ok rtc (pc\<lparr>remoteDescription := Some sdp,
                                          signalingState := Have_remote_offer\<rparr>) ans
        \<and> socketRef cs \<noteq> None
      \<longrightarrow> snd (handleOffer rtc cs sender sdp) = [Emit_answer sender ans]
          \<and> Map_get (peerConnections (fst (handleOffer rtc cs sender sdp))) sender =
              Some (pc\<lparr>remoteDescription := Some sdp, localDescription := Some ans,
                       signalingState := Stable\<rparr>))"
  by (auto simp: handleOffer_def Let_def Map_get_def Map_set_def update_conv')

text \<open>
  A client that has learned of Bob through \<open>user-joined\<close> answers Bob's offer; one that
  has not heard of Bob does nothing.
\<close>

theorem handleOffer_answers_on_open_link_witness:
  "snd (handleOffer browser_ok (fst (on_user_joined browser_ok ready_client
          \<lparr>p_id = ''B'', p_name = ''Bob'', audioEnabled = True, videoEnabled = True\<rparr>))
        ''B'' ''sdp-of-B'') = [Emit_answer ''B'' ''answer-sdp'']
   \<and> handleOffer browser_ok ready_client ''B'' ''sdp-of-B'' = (ready_client, [])"
  using handleOffer_answers_on_open_link
      [of "fst (on_user_joined browser_ok ready_client
             \<lparr>p_id = ''B'', p_name = ''Bob'', audioEnabled = True, videoEnabled = True\<rparr>)"
          "''B''" browser_ok "''sdp-of-B''"
          "new_RTCPeerConnection\<lparr>senders := camera\<rparr>" "''answer-sdp''"]
    handleOffer_answers_on_open_link [of ready_client "''B''" browser_ok "''sdp-of-B''"]
  by (simp add: on_user_joined_def createPeerConnection_def ready_client_def dispatch_def
      browser_ok_def new_RTCPeerConnection_def Map_get_def Map_set_def Let_def)

text \<open>
  C7 as stated fails: with no peer connection for Bob, his offer creates none and gets no
  answer.
\<close>

theorem offer_without_link_is_dropped:
  "handleOffer browser_ok ready_client ''B'' ''sdp-of-B'' = (ready_client, [])"
  by (simp add: handleOffer_def ready_client_def Map_get_def)

subsection \<open>Who originates\<close>

lemma createAndSendOffer_targets:
  "set (offer_targets (snd (createAndSendOffer rtc sock participantId pc))) \<subseteq> {participantId}"
  by (simp add: createAndSendOffer_def split: option.splits)


lemma offer_targets_append: "offer_targets (xs @ ys) = offer_targets xs @ offer_targets ys"
  by (induction xs rule: offer_targets.induct) simp_all







subsection \<open>What the relay makes the clients learn\<close>

lemma learn_existing_apply:
  "learn_existing ps k b = (if b \<in> p_id ` set ps then Some Via_existing else k b)"
  by (induction ps arbitrary: k) auto

lemma learn_Some_existing:
  "learn m k b = Some Via_existing \<Longrightarrow>
     k b = Some Via_existing \<or> (\<exists>ps. m = Existing_participants ps \<and> b \<in> p_id ` set ps)"
  by (cases m) (auto simp: learn_existing_apply split: if_splits)

lemma notice_other: "a \<noteq> fst d \<Longrightarrow> notice K d a = K a"
  by (simp add: notice_def)

lemma notice_self: "notice K d (fst d) = learn (snd d) (K (fst d))"
  by (simp add: notice_def)

lemma foldl_notice_other: "a \<notin> fst ` set ds \<Longrightarrow> foldl notice K ds a = K a"
  by (induction ds arbitrary: K) (auto simp: notice_def)

lemma foldl_notice_None:
  "foldl notice K ds a b \<noteq> None \<Longrightarrow> K a b \<noteq> None \<or> a \<in> fst ` set ds"
  using foldl_notice_other [of a ds K] by (cases "a \<in> fst ` set ds") auto























lemma connections_single:
  "set (connections [ev]) = (if is_connection ev then {socket_of ev} else {})"
  by (cases ev) (simp_all add: is_connection_def)






subsection \<open>What a client has learned, and what the handlers do\<close>














lemma update_each_links:
  "map fst (fst (update_each rtc sock s pcs)) = map fst pcs
   \<and> set (offer_targets (snd (update_each rtc sock s pcs))) \<subseteq> set (map fst pcs)"
proof (induction pcs)
  case Nil
  show ?case by simp
next
  case (Cons e pcs)
  obtain pid pc where e: "e = (pid, pc)" by (cases e)
  show ?case
    using Cons.IH createAndSendOffer_targets [of rtc sock pid "pc\<lparr>senders := s\<rparr>"]
    unfolding e by (auto simp: split_beta Let_def offer_targets_append)
qed



text \<open>
  Renegotiation, the fresh offer on every peer connection once the local stream has
  changed (\<open>shareScreen\<close> and the effect on \<open>state.localStream\<close>), works on the
  connections that are there, however the peer was learned: it makes no connection and
  sends offers to none but the peers that have one.
\<close>

lemma updatePeerConnectionStreams_links:
  "map fst (peerConnections (fst (updatePeerConnectionStreams rtc cs))) =
     map fst (peerConnections cs)
   \<and> set (offer_targets (snd (updatePeerConnectionStreams rtc cs))) \<subseteq>
       set (map fst (peerConnections cs))"
  using update_each_links [of rtc "socketRef cs" _ "peerConnections cs"]
  by (auto simp: updatePeerConnectionStreams_def split_beta Let_def split: option.splits)




text \<open>
  Over the two joins an offer has gone each way: Bob's to Alice when he joined, on the
  peer connections that both have replaced since, and Alice's to Bob on her second join.
\<close>

lemma offers_of_two_joins:
  "discovery_offers browser_ok all_ready alice_in_r1 ''B'' ''r1'' ''Bob'' = [(''B'', ''A'')]
   \<and> discovery_offers browser_ok all_ready both_in_r1 ''A'' ''r1'' ''Alice'' = [(''A'', ''B'')]"
  by (simp add: discovery_offers_def join_deliveries_def alice_in_r1_eq both_in_r1_eq
      join_room_def Let_def Map_set_def Map_has_def Map_get_def room_of_def Map_values_def
      deliveries_def members_def on_user_joined_def createPeerConnection_def
      createAndSendOffer_def browser_ok_def ready_client_def dispatch_def all_ready_def)

end
